theory Spec2Isabelle
  imports
    Main
    "HOL-Library.Multiset"
    "HOL-Library.Sublist"
    "HOL-Library.Char_ord"
    "HOL-Library.List_Lexorder"
begin

section \<open>Turn annotations worlds: a shallow embedding of worlds.py\<close>

text \<open>
  The theory follows \<^verbatim>\<open>parlai/crowdsourcing/tasks/turn_annotations/worlds.py\<close>.
  Python exceptions are values of \<open>py_error\<close>; a function that can raise returns
  \<open>py_error + 'a\<close> with \<open>Inl\<close> for the exception. Dictionaries whose iteration order
  matters are association lists; a key that may be missing is an \<open>option\<close> field.
  Calls that only talk to the outside (\<^verbatim>\<open>print\<close>, \<^verbatim>\<open>observe\<close>, \<^verbatim>\<open>validate\<close>) leave the
  fields of the worlds untouched and do not appear in the model; what the agents answer
  (\<^verbatim>\<open>act\<close>, after \<^verbatim>\<open>Compatibility.maybe_fix_act\<close>) is an input of the step.
\<close>

datatype py_error = KeyError | IndexError | ValueError | TypeError | AttributeError

type_synonym label = string

subsection \<open>Onboarding world\<close>

text \<open>
  The constants of \<^verbatim>\<open>constants.py\<close> (\<^verbatim>\<open>ONBOARD_CONFIG\<close>, \<^verbatim>\<open>ONBOARD_FAIL\<close>,
  \<^verbatim>\<open>ONBOARD_SUCCESS\<close>) are not part of the file; they are parameters.
\<close>

record onboard_consts =
  min_correct :: int
  max_incorrect :: int
  ONBOARD_FAIL :: string
  ONBOARD_SUCCESS :: string

text \<open>
  A worker answer is a dict from annotation label to whether it was selected; its
  \<^verbatim>\<open>items()\<close> are the pairs in insertion order. A turn of the reference dialog is a
  pair whose second component carries the \<^verbatim>\<open>answers\<close> list.
\<close>

type_synonym worker_answer = "(label \<times> bool) list"

record onboard_turn_entry =
  entry_text :: string
  answers :: "label list"

type_synonym onboard_turn = "onboard_turn_entry \<times> onboard_turn_entry"

record onboard_world =
  status :: string
  onboard_task_data :: "onboard_turn list"
  episodeDone :: bool
  granted_qualifications :: "(string \<times> int) list"
  onboarding_qualification :: string

definition onboard_init :: "onboard_turn list \<Rightarrow> string \<Rightarrow> onboard_world" where
  "onboard_init task_data qual =
     \<lparr>status = ''DISCONNECT'', onboard_task_data = task_data, episodeDone = False,
      granted_qualifications = [], onboarding_qualification = qual\<rparr>"

text \<open>The comparison loop of \<^verbatim>\<open>has_same_answer\<close> over \<^verbatim>\<open>range(len(ans1_sort))\<close>.\<close>

fun same_at :: "'a list \<Rightarrow> 'a list \<Rightarrow> nat list \<Rightarrow> bool" where
  "same_at a b [] = True"
| "same_at a b (x # xs) = (if a ! x \<noteq> b ! x then False else same_at a b xs)"

definition has_same_answer :: "'a::linorder list \<Rightarrow> 'a list \<Rightarrow> bool" where
  "has_same_answer ans1 ans2 =
     (if length ans1 \<noteq> length ans2 then False
      else (let ans1_sort = sort ans1; ans2_sort = sort ans2
            in same_at ans1_sort ans2_sort [0..<length ans1_sort]))"

definition worker_only_selected :: "worker_answer \<Rightarrow> label list" where
  "worker_only_selected worker_answer = map fst (filter snd worker_answer)"

text \<open>The counting loop over \<^verbatim>\<open>zip(worker_answers, correct_answers)\<close>.\<close>

fun count_answers :: "(worker_answer \<times> label list) list \<Rightarrow> int \<times> int \<Rightarrow> int \<times> int" where
  "count_answers [] (number_correct, number_incorrect) = (number_correct, number_incorrect)"
| "count_answers ((worker_answer, correct_answer) # rest) (number_correct, number_incorrect) =
     (if has_same_answer (worker_only_selected worker_answer) correct_answer
      then count_answers rest (number_correct + 1, number_incorrect)
      else count_answers rest (number_correct, number_incorrect + 1))"

definition correct_answers_of :: "onboard_turn list \<Rightarrow> label list list" where
  "correct_answers_of given_turns = map (\<lambda>t. answers (snd t)) given_turns"

definition check_onboarding_answers ::
    "onboard_consts \<Rightarrow> onboard_world \<Rightarrow> worker_answer list \<Rightarrow> bool" where
  "check_onboarding_answers c w worker_answers =
     (let given_turns = onboard_task_data w;
          correct_answers = correct_answers_of given_turns;
          (number_correct, number_incorrect) =
             count_answers (zip worker_answers correct_answers) (0, 0)
      in if number_correct \<ge> min_correct c \<and> number_incorrect \<le> max_incorrect c
         then True else False)"

text \<open>
  The submitted act: \<^verbatim>\<open>task_data\<close> may be missing, and so may the \<^verbatim>\<open>annotations\<close> key
  inside it.
\<close>

record onboard_task_payload =
  annotations :: "worker_answer list option"

record onboard_act =
  act_task_data :: "onboard_task_payload option"

definition handle_act ::
    "onboard_consts \<Rightarrow> onboard_world \<Rightarrow> onboard_act \<Rightarrow> py_error + (string \<times> onboard_world)" where
  "handle_act c w act =
     (case act_task_data act of
        None \<Rightarrow> Inr (ONBOARD_FAIL c, w)
      | Some td \<Rightarrow>
          (case annotations td of
             None \<Rightarrow> Inl KeyError
           | Some worker_answers \<Rightarrow>
               if check_onboarding_answers c w worker_answers
               then Inr (ONBOARD_SUCCESS c, w\<lparr>episodeDone := True\<rparr>)
               else Inr (ONBOARD_FAIL c,
                         w\<lparr>granted_qualifications :=
                              granted_qualifications w @ [(onboarding_qualification w, 0)]\<rparr>)))"

text \<open>
  \<^verbatim>\<open>parley\<close> of the onboarding world: the status becomes what \<^verbatim>\<open>_handle_act\<close> returns.
  The keep-alive loop after a failure only discards further acts.
\<close>

definition onboard_parley ::
    "onboard_consts \<Rightarrow> onboard_world \<Rightarrow> onboard_act \<Rightarrow> py_error + onboard_world" where
  "onboard_parley c w act =
     (case handle_act c w act of
        Inl e \<Rightarrow> Inl e
      | Inr (s, w') \<Rightarrow> Inr (w'\<lparr>status := s\<rparr>))"

text \<open>\<^verbatim>\<open>shutdown\<close> updates the shared histogram \<^verbatim>\<open>onboard_statistics\<close>.\<close>

definition onboard_shutdown :: "onboard_world \<Rightarrow> (string \<rightharpoonup> int) \<Rightarrow> (string \<rightharpoonup> int)" where
  "onboard_shutdown w onboard_statistics =
     (let stats1 = (if status w \<notin> dom onboard_statistics
                    then onboard_statistics(status w \<mapsto> 0) else onboard_statistics)
      in stats1(status w \<mapsto> the (stats1 (status w)) + 1))"

subsection \<open>Python helpers\<close>

text \<open>List indexing as Python does it: a negative index counts from the end.\<close>

definition py_index :: "nat \<Rightarrow> int \<Rightarrow> nat option" where
  "py_index n i =
     (let j = (if i < 0 then int n + i else i)
      in if 0 \<le> j \<and> j < int n then Some (nat j) else None)"

definition py_nth :: "'a list \<Rightarrow> int \<Rightarrow> py_error + 'a" where
  "py_nth xs i = (case py_index (length xs) i of None \<Rightarrow> Inl IndexError | Some k \<Rightarrow> Inr (xs ! k))"

text \<open>
  \<^verbatim>\<open>str.split(sep)\<close>: the pieces between the occurrences of \<open>sep\<close>, found from the left and
  not overlapping; an empty separator is a \<^verbatim>\<open>ValueError\<close>. \<open>cur\<close> is the piece being read,
  reversed.
\<close>

function split_aux :: "string \<Rightarrow> string \<Rightarrow> string \<Rightarrow> string list" where
  "split_aux sep cur [] = [rev cur]"
| "split_aux sep cur (c # cs) =
     (if sep \<noteq> [] \<and> prefix sep (c # cs)
      then rev cur # split_aux sep [] (drop (length sep) (c # cs))
      else split_aux sep (c # cur) cs)"
  by pat_completeness auto
termination
  by (relation "measure (\<lambda>(sep, cur, s). length s)") auto

definition py_split :: "string \<Rightarrow> string \<Rightarrow> py_error + string list" where
  "py_split sep s = (if sep = [] then Inl ValueError else Inr (split_aux sep [] s))"

text \<open>\<^verbatim>\<open>sep.join(pieces)\<close>.\<close>

fun py_join :: "string \<Rightarrow> string list \<Rightarrow> string" where
  "py_join sep [] = []"
| "py_join sep [x] = x"
| "py_join sep (x # y # ys) = x @ sep @ py_join sep (y # ys)"

text \<open>
  \<^verbatim>\<open>str.strip()\<close> drops the white space at both ends. A string is the list of the bytes of
  its UTF-8 encoding, so a white space character is one of the byte sequences of
  \<open>space_seqs\<close>: U+0009 to U+000D, U+001C to U+0020, U+0085, U+00A0, U+1680, U+2000 to
  U+200A, U+2028, U+2029, U+202F, U+205F and U+3000. \<open>space_width\<close> is the number of bytes
  of the white space character a string starts with, 0 when it starts with none, and
  \<open>lstrip_skip\<close> drops such characters from the front, \<open>k\<close> being the bytes still to drop
  of the character being dropped. The end of the string is stripped on the reversed
  bytes.
\<close>

definition space_seqs :: "string list" where
  "space_seqs =
     [[CHR 0x09], [CHR 0x0A], [CHR 0x0B], [CHR 0x0C], [CHR 0x0D],
      [CHR 0x1C], [CHR 0x1D], [CHR 0x1E], [CHR 0x1F], [CHR 0x20],
      [CHR 0xC2, CHR 0x85], [CHR 0xC2, CHR 0xA0], [CHR 0xE1, CHR 0x9A, CHR 0x80],
      [CHR 0xE2, CHR 0x80, CHR 0x80], [CHR 0xE2, CHR 0x80, CHR 0x81],
      [CHR 0xE2, CHR 0x80, CHR 0x82], [CHR 0xE2, CHR 0x80, CHR 0x83],
      [CHR 0xE2, CHR 0x80, CHR 0x84], [CHR 0xE2, CHR 0x80, CHR 0x85],
      [CHR 0xE2, CHR 0x80, CHR 0x86], [CHR 0xE2, CHR 0x80, CHR 0x87],
      [CHR 0xE2, CHR 0x80, CHR 0x88], [CHR 0xE2, CHR 0x80, CHR 0x89],
      [CHR 0xE2, CHR 0x80, CHR 0x8A], [CHR 0xE2, CHR 0x80, CHR 0xA8],
      [CHR 0xE2, CHR 0x80, CHR 0xA9], [CHR 0xE2, CHR 0x80, CHR 0xAF],
      [CHR 0xE2, CHR 0x81, CHR 0x9F], [CHR 0xE3, CHR 0x80, CHR 0x80]]"

definition space_width :: "string list \<Rightarrow> string \<Rightarrow> nat" where
  "space_width seqs s = (case find (\<lambda>p. prefix p s) seqs of None \<Rightarrow> 0 | Some p \<Rightarrow> length p)"

fun lstrip_skip :: "string list \<Rightarrow> nat \<Rightarrow> string \<Rightarrow> string" where
  "lstrip_skip seqs k [] = []"
| "lstrip_skip seqs (Suc k) (c # cs) = lstrip_skip seqs k cs"
| "lstrip_skip seqs 0 (c # cs) =
     (case space_width seqs (c # cs) of 0 \<Rightarrow> c # cs | Suc k \<Rightarrow> lstrip_skip seqs k cs)"

definition py_strip :: "string \<Rightarrow> string" where
  "py_strip s = rev (lstrip_skip (map rev space_seqs) 0 (rev (lstrip_skip space_seqs 0 s)))"

text \<open>How an f-string prints an integer and an optional string.\<close>

fun digits_of :: "nat \<Rightarrow> string" where
  "digits_of n = (if n < 10 then [char_of (48 + n)]
                  else digits_of (n div 10) @ [char_of (48 + n mod 10)])"

definition str_of_int :: "int \<Rightarrow> string" where
  "str_of_int i = (if i < 0 then CHR ''-'' # digits_of (nat (- i)) else digits_of (nat i))"

definition str_of_opt :: "string option \<Rightarrow> string" where
  "str_of_opt s = (case s of None \<Rightarrow> ''None'' | Some t \<Rightarrow> t)"

definition nl :: string where
  "nl = [CHR 0x0A]"

definition dq :: string where
  "dq = [CHR 0x22]"

definition apos :: string where
  "apos = [CHR 0x27]"

text \<open>
  \<^verbatim>\<open>list.sort(reverse=True, key=f)\<close> is stable: elements with equal keys keep their order.
  It is the ascending stable sort of the reversed list, reversed.
\<close>

definition sort_reverse_key :: "('a \<Rightarrow> 'k::linorder) \<Rightarrow> 'a list \<Rightarrow> 'a list" where
  "sort_reverse_key f xs = rev (sort_key f (rev xs))"

subsection \<open>Chat world\<close>

type_synonym problem_data = "(label \<times> bool) list"

text \<open>
  An act of an agent. A key that is missing is \<open>None\<close>; \<open>final_rating\<close> is \<open>None\<close> also when
  the key is there with the value \<^verbatim>\<open>None\<close>.
\<close>

record task_data =
  final_rating :: "int option"
  problem_data_for_prior_message :: "problem_data option"

record message =
  msg_text :: "string option"
  msg_id :: "string option"
  msg_task_data :: "task_data option"

text \<open>
  An entry of \<^verbatim>\<open>self.dialog\<close>. \<open>fake_start\<close> is whether the key is there (its value is
  always \<^verbatim>\<open>True\<close>), \<open>episode_done\<close> and \<open>problem_data\<close> are \<open>None\<close> when the key is missing.
\<close>

record utterance =
  agent_idx :: nat
  utt_text :: string
  utt_id :: string
  fake_start :: bool
  episode_done :: "bool option"
  problem_data :: "problem_data option"

record chat_opt =
  num_turns :: int
  include_persona :: bool
  conversation_start_mode :: string
  check_acceptability :: bool

record context_info =
  persona_1_strings :: "string list"
  persona_2_strings :: "string list"
  context_dataset :: "string option"
  additional_context :: "string option"
  person1_seed_utterance :: string
  person2_seed_utterance :: string

text \<open>
  The fields of \<^verbatim>\<open>TurnAnnotationsChatWorld\<close>. \<open>chat_context_info\<close> is \<open>None\<close> when the world
  was made without a context: then \<^verbatim>\<open>self.context_info\<close> is the empty dict and
  \<^verbatim>\<open>self.personas\<close> is \<^verbatim>\<open>None\<close>. \<open>agent_id\<close> and \<open>bot_id\<close> are the \<^verbatim>\<open>id\<close> of the two agents.
\<close>

record chat_world =
  opt :: chat_opt
  task_turn_idx :: int
  dialog :: "utterance list"
  chat_done :: bool
  chat_context_info :: "context_info option"
  agent_id :: string
  bot_id :: string

definition chat_init :: "chat_opt \<Rightarrow> string \<Rightarrow> string \<Rightarrow> context_info option \<Rightarrow> chat_world" where
  "chat_init opts aid bid ctx =
     \<lparr>opt = opts, task_turn_idx = 0, dialog = [], chat_done = False, chat_context_info = ctx,
      agent_id = aid, bot_id = bid\<rparr>"

definition add_problem_data_to_utterance ::
    "problem_data \<Rightarrow> int \<Rightarrow> chat_world \<Rightarrow> py_error + chat_world" where
  "add_problem_data_to_utterance p turn_idx w =
     (case py_index (length (dialog w)) turn_idx of
        None \<Rightarrow> Inl IndexError
      | Some k \<Rightarrow> Inr (w\<lparr>dialog := (dialog w)[k := (dialog w ! k)\<lparr>problem_data := Some p\<rparr>]\<rparr>))"

definition get_persona_utterance ::
    "chat_world \<Rightarrow> string list \<Rightarrow> string option \<Rightarrow> string option \<Rightarrow> bool \<Rightarrow> py_error + string" where
  "get_persona_utterance w persona_strings ctx_dataset add_context is_bot =
     (if is_bot then
        (let persona_pieces = map (\<lambda>s. ''your persona: '' @ s) persona_strings
         in if ctx_dataset = Some ''wizard_of_wikipedia''
            then (case add_context of
                    None \<Rightarrow> Inl TypeError
                  | Some a \<Rightarrow> Inr (py_join nl (persona_pieces @ [a])))
            else Inr (py_join nl (persona_pieces @ [])))
      else
        (case (if ctx_dataset = Some ''convai2''
               then Inr ''Pretend that the conversation has already begun.''
               else if ctx_dataset = Some ''empathetic_dialogues''
               then Inr (''Pretend that the conversation has already begun, and that you '' @
                         ''had been talking about the following situation: '' @
                         ''<b>'' @ dq @ str_of_opt add_context @ dq @ ''</b>'')
               else if ctx_dataset = Some ''wizard_of_wikipedia''
               then Inr (''Pretend that the conversation has already begun, and that you '' @
                         ''had been talking about <b>'' @ str_of_opt add_context @ ''</b>.'')
               else Inl ValueError) of
           Inl e \<Rightarrow> Inl e
         | Inr last_sentence \<Rightarrow>
             (let joined_personas = py_join nl persona_strings
              in Inr (nl @ ''Successfully matched with another user! Now let'' @ apos @
                      ''s get to know '' @
                      ''each other through the chat. You need to finish at least '' @
                      ''<b>'' @ str_of_int (num_turns (opt w)) @
                      '' chat turns</b>, and after that you can click the '' @
                      dq @ ''Done'' @ dq @ '' button to end the chat.'' @ nl @ nl @
                      ''<b>Your character description is:'' @ nl @ ''<span style='' @ dq @
                      ''color:blue'' @ dq @ ''>'' @ joined_personas @ ''</span></b> '' @
                      nl @ nl @ ''<b>Remember that you can get to know each '' @
                      ''other as your characters, talk about any topic, or talk about a '' @
                      ''situation that might have happened to your character.</b>'' @
                      nl @ ''<b>Do not trivially copy the '' @
                      ''character descriptions into the message.</b><br><br>'' @
                      last_sentence))))"

text \<open>
  \<^verbatim>\<open>parley\<close> at turn index 0. \<open>first_bot_act\<close> is what \<^verbatim>\<open>self.bot.act()\<close> answers, asked for
  in the \<^verbatim>\<open>hi\<close> mode only.
\<close>

definition parley_start :: "chat_world \<Rightarrow> message \<Rightarrow> py_error + chat_world" where
  "parley_start w first_bot_act =
     (case (if include_persona (opt w)
            then (case chat_context_info w of
                    None \<Rightarrow> Inl TypeError
                  | Some ci \<Rightarrow>
                      get_persona_utterance w (map py_strip (persona_2_strings ci))
                        (context_dataset ci) (additional_context ci) True)
            else Inr []) of
        Inl e \<Rightarrow> Inl e
      | Inr persona_utterance \<Rightarrow>
          if conversation_start_mode (opt w) = ''bst'' then
            (case chat_context_info w of
               None \<Rightarrow> Inl KeyError
             | Some ci \<Rightarrow>
                 (let human_first_msg =
                        \<lparr>agent_idx = 0, utt_text = person1_seed_utterance ci, utt_id = agent_id w,
                         fake_start = True, episode_done = Some False, problem_data = None\<rparr>;
                      bot_first_msg =
                        \<lparr>agent_idx = 1, utt_text = person2_seed_utterance ci, utt_id = bot_id w,
                         fake_start = True, episode_done = Some False, problem_data = None\<rparr>
                  in Inr (w\<lparr>dialog := dialog w @ [human_first_msg] @ [bot_first_msg],
                            task_turn_idx := task_turn_idx w + 1\<rparr>)))
          else if conversation_start_mode (opt w) = ''hi'' then
            (let human_first_msg =
                   \<lparr>agent_idx = 0, utt_text = ''Hi!'', utt_id = agent_id w,
                    fake_start = True, episode_done = Some False, problem_data = None\<rparr>
             in case msg_text first_bot_act of
                  None \<Rightarrow> Inl KeyError
                | Some t \<Rightarrow>
                    (case msg_id first_bot_act of
                       None \<Rightarrow> Inl KeyError
                     | Some i \<Rightarrow>
                         (let bot_utterance_data =
                                \<lparr>agent_idx = 1, utt_text = t, utt_id = i,
                                 fake_start = False, episode_done = None, problem_data = None\<rparr>
                          in Inr (w\<lparr>dialog := dialog w @ [human_first_msg] @ [bot_utterance_data],
                                    task_turn_idx := task_turn_idx w + 1\<rparr>))))
          else Inl ValueError)"

text \<open>
  The body of the loop over the two agents in \<^verbatim>\<open>parley\<close>, for the agent \<open>idx\<close> whose act is
  \<open>act\<close>. The boolean of the result says that \<^verbatim>\<open>parley\<close> returned from inside the loop.
\<close>

definition get_final_rating :: "message \<Rightarrow> int option" where
  "get_final_rating act = (case msg_task_data act of None \<Rightarrow> None | Some td \<Rightarrow> final_rating td)"

definition get_problem_data :: "message \<Rightarrow> py_error + problem_data" where
  "get_problem_data act =
     (case msg_task_data act of
        None \<Rightarrow> Inl KeyError
      | Some td \<Rightarrow>
          (case problem_data_for_prior_message td of None \<Rightarrow> Inl KeyError | Some p \<Rightarrow> Inr p))"

definition parley_agent :: "nat \<Rightarrow> message \<Rightarrow> chat_world \<Rightarrow> py_error + (bool \<times> chat_world)" where
  "parley_agent idx act w =
     (if get_final_rating act \<noteq> None then
        (let w1 = w\<lparr>chat_done := True\<rparr>
         in if task_turn_idx w1 > num_turns (opt w1) then
              (case get_problem_data act of
                 Inl e \<Rightarrow> Inl e
               | Inr p \<Rightarrow>
                   (case add_problem_data_to_utterance p (int idx - 1) w1 of
                      Inl e \<Rightarrow> Inl e
                    | Inr w2 \<Rightarrow> Inr (True, w2)))
            else Inr (True, w1))
      else
        (case msg_text act of
           None \<Rightarrow> Inl KeyError
         | Some t \<Rightarrow>
             (case py_split ''<br>'' t of
                Inl e \<Rightarrow> Inl e
              | Inr pieces \<Rightarrow>
                  (case py_nth pieces 0 of
                     Inl e \<Rightarrow> Inl e
                   | Inr piece \<Rightarrow>
                       (let utterance_data =
                              \<lparr>agent_idx = idx, utt_text = piece,
                               utt_id = (case msg_id act of Some i \<Rightarrow> i | None \<Rightarrow> ''NULL_ID''),
                               fake_start = False, episode_done = None, problem_data = None\<rparr>;
                            w1 = w\<lparr>dialog := dialog w @ [utterance_data]\<rparr>
                        in case (if idx = 0
                                 then (case get_problem_data act of
                                         Inl e \<Rightarrow> Inl e
                                       | Inr p \<Rightarrow> add_problem_data_to_utterance p (int idx - 1) w1)
                                 else Inr w1) of
                             Inl e \<Rightarrow> Inl e
                           | Inr w2 \<Rightarrow>
                               Inr (False, w2\<lparr>task_turn_idx := task_turn_idx w2 + 1\<rparr>))))))"

text \<open>
  \<^verbatim>\<open>parley\<close> after turn index 0. When the chat is already done no act is asked for,
  \<^verbatim>\<open>acts[0]\<close> stays \<^verbatim>\<open>None\<close> and its \<^verbatim>\<open>get\<close> raises.
\<close>

definition parley_loop :: "chat_world \<Rightarrow> message \<Rightarrow> message \<Rightarrow> py_error + chat_world" where
  "parley_loop w human_act bot_act =
     (if chat_done w then Inl AttributeError
      else (case parley_agent 0 human_act w of
              Inl e \<Rightarrow> Inl e
            | Inr (returned, w1) \<Rightarrow>
                if returned then Inr w1
                else (case parley_agent 1 bot_act w1 of
                        Inl e \<Rightarrow> Inl e
                      | Inr (returned', w2) \<Rightarrow> Inr w2)))"

definition parley :: "chat_world \<Rightarrow> message \<Rightarrow> message \<Rightarrow> py_error + chat_world" where
  "parley w human_act bot_act =
     (if task_turn_idx w = 0 then parley_start w bot_act
      else parley_loop w human_act bot_act)"

text \<open>
  The caller runs \<^verbatim>\<open>parley\<close> until \<^verbatim>\<open>episode_done()\<close>; \<open>run\<close> does so over the acts the two
  agents would give at each call.
\<close>

definition chat_episode_done :: "chat_world \<Rightarrow> bool" where
  "chat_episode_done w = chat_done w"

fun run :: "chat_world \<Rightarrow> (message \<times> message) list \<Rightarrow> py_error + chat_world" where
  "run w [] = Inr w"
| "run w ((human_act, bot_act) # rest) =
     (if chat_episode_done w then Inr w
      else (case parley w human_act bot_act of
              Inl e \<Rightarrow> Inl e
            | Inr w' \<Rightarrow> run w' rest))"

text \<open>
  The acceptability part of \<^verbatim>\<open>save_data\<close>: the arguments of the call of
  \<^verbatim>\<open>check_messages\<close> (messages, \<^verbatim>\<open>is_worker_0\<close>, violation types), when there is one, and
  with the checker as a parameter what it answers and whether the block qualification is
  granted.
\<close>

definition acceptability_call :: "chat_world \<Rightarrow> (string list \<times> bool \<times> string list) option" where
  "acceptability_call w =
     (if check_acceptability (opt w) then
        (let human_texts = map utt_text (filter (\<lambda>message. agent_idx message = 0) (dialog w));
             violation_types = [''min_words'', ''all_caps'', ''exact_match'', ''safety''];
             violation_types' = (if conversation_start_mode (opt w) = ''bst''
                                 then violation_types @ [''penalize_greetings'']
                                 else violation_types)
         in Some (human_texts, False, violation_types'))
      else None)"

definition save_data ::
    "(string list \<Rightarrow> bool \<Rightarrow> string list \<Rightarrow> string) \<Rightarrow> chat_world \<Rightarrow> string option \<times> bool" where
  "save_data check_messages w =
     (let violations_string =
            (case acceptability_call w of
               None \<Rightarrow> None
             | Some (messages, is_worker_0, violation_types) \<Rightarrow>
                 Some (check_messages messages is_worker_0 violation_types))
      in (violations_string,
          check_acceptability (opt w) \<and> violations_string \<noteq> Some []))"

subsection \<open>Module functions\<close>

text \<open>
  \<^verbatim>\<open>validate_onboarding\<close> reads \<^verbatim>\<open>data['outputs']['messages']\<close>; the list of messages is the
  argument here. An entry may be \<^verbatim>\<open>None\<close>, its \<^verbatim>\<open>data\<close> may be missing, and so may the
  \<^verbatim>\<open>final_status\<close> inside.
\<close>

record submitted_data =
  final_status :: "string option"

record log_message =
  msg_data :: "submitted_data option"

definition validate_onboarding ::
    "onboard_consts \<Rightarrow> log_message option list \<Rightarrow> py_error + bool" where
  "validate_onboarding c messages =
     (if length messages = 0 then Inr False
      else (case py_nth messages (- 2) of
              Inl e \<Rightarrow> Inl e
            | Inr status_message \<Rightarrow>
                (case status_message of
                   None \<Rightarrow> Inr False
                 | Some m \<Rightarrow>
                     (case msg_data m of
                        None \<Rightarrow> Inr False
                      | Some sd \<Rightarrow> Inr (final_status sd = Some (ONBOARD_SUCCESS c))))))"

text \<open>
  The choice of the bot in \<^verbatim>\<open>make_world\<close>. \<open>conversations_needed\<close> is a dict read in its order
  of iteration, \<open>run_statistics\<close> the shared dict of counters.
\<close>

fun remaining_counts ::
    "(string \<times> int) list \<Rightarrow> (string \<rightharpoonup> int) \<Rightarrow> py_error + (string \<times> int) list" where
  "remaining_counts [] run_statistics = Inr []"
| "remaining_counts ((m, c) # rest) run_statistics =
     (case run_statistics m of
        None \<Rightarrow> Inl KeyError
      | Some r \<Rightarrow>
          (case remaining_counts rest run_statistics of
             Inl e \<Rightarrow> Inl e
           | Inr xs \<Rightarrow> Inr ((m, c - r) # xs)))"

definition decide_on_bot ::
    "(string \<times> int) list \<Rightarrow> (string \<rightharpoonup> int) \<Rightarrow> py_error + (string \<times> (string \<rightharpoonup> int))" where
  "decide_on_bot conversations_needed run_statistics =
     (case remaining_counts conversations_needed run_statistics of
        Inl e \<Rightarrow> Inl e
      | Inr remaining_counts_needed \<Rightarrow>
          (case py_nth (sort_reverse_key snd remaining_counts_needed) 0 of
             Inl e \<Rightarrow> Inl e
           | Inr first \<Rightarrow>
               (let model_name = fst first
                in case run_statistics model_name of
                     None \<Rightarrow> Inl KeyError
                   | Some n \<Rightarrow> Inr (model_name, run_statistics(model_name \<mapsto> n + 1)))))"

text \<open>
  \<^verbatim>\<open>make_world\<close>: the bot is chosen and counted, then the chat world is made for the first
  agent and the context that \<^verbatim>\<open>context_generator.get_context()\<close> gave (\<open>None\<close> without a
  generator). \<open>bot_id_of\<close> is the \<^verbatim>\<open>id\<close> the bot agent of that name has.
\<close>

definition make_world ::
    "chat_opt \<Rightarrow> (string \<times> int) list \<Rightarrow> (string \<rightharpoonup> int) \<Rightarrow> (string \<Rightarrow> string) \<Rightarrow>
     context_info option \<Rightarrow> py_error + ((string \<rightharpoonup> int) \<times> chat_world)" where
  "make_world opts conversations_needed run_statistics bot_id_of ctx =
     (case decide_on_bot conversations_needed run_statistics of
        Inl e \<Rightarrow> Inl e
      | Inr (model_name, run_statistics') \<Rightarrow>
          Inr (run_statistics', chat_init opts ''Worker'' (bot_id_of model_name) ctx))"

subsection \<open>The shape of the dialog\<close>

text \<open>
  What holds of a chat world after its opening step: the turn index is one less than the
  number of recorded utterances, the utterances are those of agent 0 and agent 1 in turn,
  and as long as the chat is not done both agents have spoken equally often.
\<close>

definition dialog_shape :: "chat_world \<Rightarrow> bool" where
  "dialog_shape w \<longleftrightarrow>
     1 \<le> task_turn_idx w \<and>
     int (length (dialog w)) = task_turn_idx w + 1 \<and>
     map agent_idx (dialog w) = map (\<lambda>i. i mod 2) [0..<length (dialog w)] \<and>
     (\<not> chat_done w \<longrightarrow> even (length (dialog w)))"

section \<open>Properties\<close>

lemma same_at_iff: "same_at a b xs \<longleftrightarrow> (\<forall>x \<in> set xs. a ! x = b ! x)"
  by (induction xs) auto

lemma has_same_answer_sort: "has_same_answer ans1 ans2 \<longleftrightarrow> sort ans1 = sort ans2"
proof (cases "length ans1 = length ans2")
  case True
  then have len: "length (sort ans1) = length (sort ans2)" by simp
  have "has_same_answer ans1 ans2 \<longleftrightarrow>
          (\<forall>x < length (sort ans1). sort ans1 ! x = sort ans2 ! x)"
    using True by (auto simp add: has_same_answer_def same_at_iff)
  also have "\<dots> \<longleftrightarrow> sort ans1 = sort ans2"
    using len by (metis nth_equalityI)
  finally show ?thesis .
next
  case False
  then have "sort ans1 \<noteq> sort ans2"
    by (metis length_sort)
  with False show ?thesis by (simp add: has_same_answer_def)
qed

lemma has_same_answer_mset: "has_same_answer ans1 ans2 \<longleftrightarrow> mset ans1 = mset ans2"
proof -
  have "sort ans1 = sort ans2 \<longleftrightarrow> mset ans1 = mset ans2"
  proof
    assume "sort ans1 = sort ans2"
    then have "mset (sort ans1) = mset (sort ans2)" by simp
    then show "mset ans1 = mset ans2" by simp
  next
    assume "mset ans1 = mset ans2"
    then have "mset (sort ans2) = mset ans1" by simp
    then show "sort ans1 = sort ans2"
      by (rule properties_for_sort) simp
  qed
  then show ?thesis by (simp add: has_same_answer_sort)
qed

lemma count_answers_filter:
  "count_answers turns (nc, ni) =
     (nc + int (length (filter (\<lambda>(wa, ca). mset (worker_only_selected wa) = mset ca) turns)),
      ni + int (length (filter (\<lambda>(wa, ca). mset (worker_only_selected wa) \<noteq> mset ca) turns)))"
  by (induction turns "(nc, ni)" arbitrary: nc ni rule: count_answers.induct)
     (simp_all add: has_same_answer_mset)

lemma distinct_mset_eq_set_eq:
  "distinct xs \<Longrightarrow> distinct ys \<Longrightarrow> mset xs = mset ys \<longleftrightarrow> set xs = set ys"
  by (metis set_eq_iff_mset_eq_distinct)

lemma distinct_worker_only_selected:
  "distinct (map fst wa) \<Longrightarrow> distinct (worker_only_selected wa)"
  unfolding worker_only_selected_def by (simp add: distinct_map_filter)

subsection \<open>C1: the onboarding pass rule\<close>

text \<open>
  Claim C1, as amended. \<^verbatim>\<open>check_onboarding_answers\<close> accepts exactly when the number of
  correct turns is at least \<open>min_correct\<close> and the number of incorrect turns is at most
  \<open>max_incorrect\<close>, counted over the turns that both the submission and the reference
  dialog have. A turn is correct exactly when the list of labels the worker marked true
  and the reference list are equal as multisets: the order of the labels does not matter,
  their multiplicity does. When the reference list has no repeated label (the keys of the
  worker's dict never repeat), this is equality of the two label sets.
\<close>

theorem check_onboarding_answers_pass_iff:
  "(check_onboarding_answers c w worker_answers \<longleftrightarrow>
      min_correct c \<le> int (length (filter (\<lambda>(wa, ca). mset (worker_only_selected wa) = mset ca)
                (zip worker_answers (correct_answers_of (onboard_task_data w))))) \<and>
      int (length (filter (\<lambda>(wa, ca). mset (worker_only_selected wa) \<noteq> mset ca)
                (zip worker_answers (correct_answers_of (onboard_task_data w))))) \<le> max_incorrect c)
   \<and> (has_same_answer (worker_only_selected wa) ca \<longleftrightarrow> mset (worker_only_selected wa) = mset ca)
   \<and> (distinct (map fst wa) \<and> distinct ca \<longrightarrow>
        (has_same_answer (worker_only_selected wa) ca \<longleftrightarrow> set (worker_only_selected wa) = set ca))"
proof (intro conjI impI)
  show "check_onboarding_answers c w worker_answers \<longleftrightarrow>
      min_correct c \<le> int (length (filter (\<lambda>(wa, ca). mset (worker_only_selected wa) = mset ca)
                (zip worker_answers (correct_answers_of (onboard_task_data w))))) \<and>
      int (length (filter (\<lambda>(wa, ca). mset (worker_only_selected wa) \<noteq> mset ca)
                (zip worker_answers (correct_answers_of (onboard_task_data w))))) \<le> max_incorrect c"
    by (simp add: check_onboarding_answers_def count_answers_filter Let_def)
  show "has_same_answer (worker_only_selected wa) ca \<longleftrightarrow> mset (worker_only_selected wa) = mset ca"
    by (rule has_same_answer_mset)
  assume "distinct (map fst wa) \<and> distinct ca"
  then show "has_same_answer (worker_only_selected wa) ca \<longleftrightarrow> set (worker_only_selected wa) = set ca"
    by (simp add: has_same_answer_mset distinct_mset_eq_set_eq distinct_worker_only_selected)
qed

text \<open>
  The scenario of the specification: thresholds 3 and 1, reference answers a, b, c, d, and
  a worker who selects a, b, c, x (with some unselected labels, in another order) passes.
\<close>

theorem check_onboarding_answers_pass_iff_witness:
  "distinct (map fst [(''b'', True), (''x'', False), (''a'', True)]) \<and> distinct [''a'', ''b''] \<and>
   has_same_answer (worker_only_selected [(''b'', True), (''x'', False), (''a'', True)]) [''a'', ''b''] \<and>
   check_onboarding_answers
     \<lparr>min_correct = 3, max_incorrect = 1, ONBOARD_FAIL = ''ONBOARD_FAIL'',
      ONBOARD_SUCCESS = ''ONBOARD_SUCCESS''\<rparr>
     (onboard_init
        [(\<lparr>entry_text = ''h1'', answers = []\<rparr>, \<lparr>entry_text = ''b1'', answers = [''a'']\<rparr>),
         (\<lparr>entry_text = ''h2'', answers = []\<rparr>, \<lparr>entry_text = ''b2'', answers = [''b'']\<rparr>),
         (\<lparr>entry_text = ''h3'', answers = []\<rparr>, \<lparr>entry_text = ''b3'', answers = [''c'']\<rparr>),
         (\<lparr>entry_text = ''h4'', answers = []\<rparr>, \<lparr>entry_text = ''b4'', answers = [''d'']\<rparr>)] ''q'')
     [ [(''a'', True), (''b'', False)], [(''a'', False), (''b'', True)], [(''c'', True)],
      [(''x'', True), (''d'', False)] ]"
  using check_onboarding_answers_pass_iff
    [of "\<lparr>min_correct = 3, max_incorrect = 1, ONBOARD_FAIL = ''ONBOARD_FAIL'',
          ONBOARD_SUCCESS = ''ONBOARD_SUCCESS''\<rparr>"
        "onboard_init
        [(\<lparr>entry_text = ''h1'', answers = []\<rparr>, \<lparr>entry_text = ''b1'', answers = [''a'']\<rparr>),
         (\<lparr>entry_text = ''h2'', answers = []\<rparr>, \<lparr>entry_text = ''b2'', answers = [''b'']\<rparr>),
         (\<lparr>entry_text = ''h3'', answers = []\<rparr>, \<lparr>entry_text = ''b3'', answers = [''c'']\<rparr>),
         (\<lparr>entry_text = ''h4'', answers = []\<rparr>, \<lparr>entry_text = ''b4'', answers = [''d'']\<rparr>)] ''q''"
        "[ [(''a'', True), (''b'', False)], [(''a'', False), (''b'', True)], [(''c'', True)],
          [(''x'', True), (''d'', False)] ]"
        "[(''b'', True), (''x'', False), (''a'', True)]" "[''a'', ''b'']"]
  by (simp add: worker_only_selected_def correct_answers_of_def onboard_init_def insert_commute)

text \<open>
  The claim as stated (set equality, duplicates counting as presence only) fails: with the
  reference list a, a and a worker who selects a, the two label sets are equal, yet the
  turn is incorrect and the submission is rejected.
\<close>

theorem check_onboarding_answers_set_equality_counterexample:
  "set (worker_only_selected [(''a'', True)]) = set [''a'', ''a''] \<and>
   \<not> has_same_answer (worker_only_selected [(''a'', True)]) [''a'', ''a''] \<and>
   \<not> check_onboarding_answers
        \<lparr>min_correct = 1, max_incorrect = 0, ONBOARD_FAIL = ''ONBOARD_FAIL'',
         ONBOARD_SUCCESS = ''ONBOARD_SUCCESS''\<rparr>
        (onboard_init [(\<lparr>entry_text = ''hello'', answers = []\<rparr>,
                        \<lparr>entry_text = ''hi'', answers = [''a'', ''a'']\<rparr>)] ''q'')
        [ [(''a'', True)] ]"
  by (simp add: check_onboarding_answers_def correct_answers_of_def onboard_init_def
      has_same_answer_def worker_only_selected_def)

subsection \<open>C2: the rules given to the acceptability checker\<close>

text \<open>
  Claim C2, as amended. When acceptability checking is enabled, \<^verbatim>\<open>save_data\<close> calls the
  checker once, on the texts of all entries of the dialog with \<open>agent_idx\<close> 0, in their
  order, and with a list of violation types that contains \<^verbatim>\<open>penalize_greetings\<close> exactly
  when the conversation start mode is \<^verbatim>\<open>bst\<close>; the other four types are always there.
\<close>

theorem save_data_acceptability_rules:
  "check_acceptability (opt w) \<Longrightarrow>
     \<exists>violation_types.
       acceptability_call w =
         Some (map utt_text (filter (\<lambda>m. agent_idx m = 0) (dialog w)), False, violation_types) \<and>
       fst (save_data check_messages w) =
         Some (check_messages (map utt_text (filter (\<lambda>m. agent_idx m = 0) (dialog w))) False
                 violation_types) \<and>
       (''penalize_greetings'' \<in> set violation_types \<longleftrightarrow>
          conversation_start_mode (opt w) = ''bst'') \<and>
       set violation_types - {''penalize_greetings''} =
          {''min_words'', ''all_caps'', ''exact_match'', ''safety''}"
  by (auto simp: acceptability_call_def save_data_def Let_def)

theorem save_data_acceptability_rules_witness:
  "check_acceptability
     (opt \<lparr>opt = \<lparr>num_turns = 1, include_persona = False, conversation_start_mode = ''hi'',
                  check_acceptability = True\<rparr>,
           task_turn_idx = 1,
           dialog = [\<lparr>agent_idx = 0, utt_text = ''Hi!'', utt_id = ''Worker'', fake_start = True,
                      episode_done = Some False, problem_data = None\<rparr>,
                     \<lparr>agent_idx = 1, utt_text = ''Hello'', utt_id = ''Bot'', fake_start = False,
                      episode_done = None, problem_data = None\<rparr>],
           chat_done = True, chat_context_info = None, agent_id = ''Worker'',
           bot_id = ''Bot''\<rparr>) \<and>
   acceptability_call
     \<lparr>opt = \<lparr>num_turns = 1, include_persona = False, conversation_start_mode = ''hi'',
             check_acceptability = True\<rparr>,
      task_turn_idx = 1,
      dialog = [\<lparr>agent_idx = 0, utt_text = ''Hi!'', utt_id = ''Worker'', fake_start = True,
                 episode_done = Some False, problem_data = None\<rparr>,
                \<lparr>agent_idx = 1, utt_text = ''Hello'', utt_id = ''Bot'', fake_start = False,
                 episode_done = None, problem_data = None\<rparr>],
      chat_done = True, chat_context_info = None, agent_id = ''Worker'', bot_id = ''Bot''\<rparr> =
     Some ([''Hi!''], False, [''min_words'', ''all_caps'', ''exact_match'', ''safety''])"
  using save_data_acceptability_rules
    [of "\<lparr>opt = \<lparr>num_turns = 1, include_persona = False, conversation_start_mode = ''hi'',
                 check_acceptability = True\<rparr>,
          task_turn_idx = 1,
          dialog = [\<lparr>agent_idx = 0, utt_text = ''Hi!'', utt_id = ''Worker'', fake_start = True,
                     episode_done = Some False, problem_data = None\<rparr>,
                    \<lparr>agent_idx = 1, utt_text = ''Hello'', utt_id = ''Bot'', fake_start = False,
                     episode_done = None, problem_data = None\<rparr>],
          chat_done = True, chat_context_info = None, agent_id = ''Worker'', bot_id = ''Bot''\<rparr>"
        "\<lambda>messages is_worker_0 violation_types. []"]
  by (simp add: acceptability_call_def)

text \<open>
  The claim as stated has the rule the other way round. In the \<^verbatim>\<open>bst\<close> mode the greeting
  rule is among the violation types, in the \<^verbatim>\<open>hi\<close> mode it is not.
\<close>

theorem save_data_penalize_greetings_counterexample:
  "acceptability_call
     \<lparr>opt = \<lparr>num_turns = 1, include_persona = False, conversation_start_mode = ''bst'',
             check_acceptability = True\<rparr>,
      task_turn_idx = 1,
      dialog = [\<lparr>agent_idx = 0, utt_text = ''seed one'', utt_id = ''Worker'', fake_start = True,
                 episode_done = Some False, problem_data = None\<rparr>,
                \<lparr>agent_idx = 1, utt_text = ''seed two'', utt_id = ''Bot'', fake_start = True,
                 episode_done = Some False, problem_data = None\<rparr>],
      chat_done = True, chat_context_info = None, agent_id = ''Worker'', bot_id = ''Bot''\<rparr> =
     Some ([''seed one''], False,
           [''min_words'', ''all_caps'', ''exact_match'', ''safety'', ''penalize_greetings'']) \<and>
   acceptability_call
     \<lparr>opt = \<lparr>num_turns = 1, include_persona = False, conversation_start_mode = ''hi'',
             check_acceptability = True\<rparr>,
      task_turn_idx = 1,
      dialog = [\<lparr>agent_idx = 0, utt_text = ''Hi!'', utt_id = ''Worker'', fake_start = True,
                 episode_done = Some False, problem_data = None\<rparr>,
                \<lparr>agent_idx = 1, utt_text = ''Hello'', utt_id = ''Bot'', fake_start = False,
                 episode_done = None, problem_data = None\<rparr>],
      chat_done = True, chat_context_info = None, agent_id = ''Worker'', bot_id = ''Bot''\<rparr> =
     Some ([''Hi!''], False, [''min_words'', ''all_caps'', ''exact_match'', ''safety''])"
  by (simp add: acceptability_call_def)

subsection \<open>C5: the onboarding completion check\<close>

lemma validate_onboarding_empty: "validate_onboarding c [] = Inr False"
  by (simp add: validate_onboarding_def)

lemma validate_onboarding_two_or_more:
  "2 \<le> length messages \<Longrightarrow>
   validate_onboarding c messages =
     Inr (case messages ! (length messages - 2) of
            None \<Rightarrow> False
          | Some m \<Rightarrow> (case msg_data m of None \<Rightarrow> False
                       | Some sd \<Rightarrow> final_status sd = Some (ONBOARD_SUCCESS c)))"
  by (auto simp: validate_onboarding_def py_nth_def py_index_def Let_def nat_diff_distrib
           split: option.splits)

text \<open>
  Claim C5. On a log of two or more messages, and on the empty log, the check answers as
  the claim says (the two lemmas above). On a log of exactly one message there is no
  second-to-last message, and \<^verbatim>\<open>messages[-2]\<close> raises \<^verbatim>\<open>IndexError\<close> instead of the check
  returning \<^verbatim>\<open>False\<close>: the guard before it only excludes the empty log.
\<close>

theorem validate_onboarding_single_message:
  "validate_onboarding c [m] = Inl IndexError"
  by (simp add: validate_onboarding_def py_nth_def py_index_def)

subsection \<open>C7: a submission without answers\<close>

lemma check_onboarding_answers_empty:
  "check_onboarding_answers c w [] \<longleftrightarrow> min_correct c \<le> 0 \<and> 0 \<le> max_incorrect c"
  by (simp add: check_onboarding_answers_def)

text \<open>
  Claim C7, as amended. An act without \<^verbatim>\<open>task_data\<close> is a failure, whatever the thresholds,
  and nothing is raised. An act whose \<^verbatim>\<open>annotations\<close> list is empty is a failure (with the
  onboarding qualification granted) whenever \<open>min_correct\<close> is positive or \<open>max_incorrect\<close>
  is negative.
\<close>

theorem handle_act_no_answers:
  "(act_task_data act = None \<longrightarrow> handle_act c w act = Inr (ONBOARD_FAIL c, w)) \<and>
   (act_task_data act = Some td \<and> annotations td = Some [] \<and>
      (0 < min_correct c \<or> max_incorrect c < 0) \<longrightarrow>
        handle_act c w act =
          Inr (ONBOARD_FAIL c,
               w\<lparr>granted_qualifications :=
                    granted_qualifications w @ [(onboarding_qualification w, 0)]\<rparr>))"
  by (auto simp: handle_act_def check_onboarding_answers_empty)

theorem handle_act_no_answers_witness:
  "act_task_data \<lparr>act_task_data = None\<rparr> = None \<and>
   handle_act \<lparr>min_correct = 3, max_incorrect = 1, ONBOARD_FAIL = ''ONBOARD_FAIL'',
               ONBOARD_SUCCESS = ''ONBOARD_SUCCESS''\<rparr>
     (onboard_init [] ''q'') \<lparr>act_task_data = None\<rparr> =
     Inr (''ONBOARD_FAIL'', onboard_init [] ''q'') \<and>
   act_task_data \<lparr>act_task_data = Some \<lparr>annotations = Some []\<rparr>\<rparr> = Some \<lparr>annotations = Some []\<rparr> \<and>
   annotations \<lparr>annotations = Some []\<rparr> = Some [] \<and>
   0 < min_correct \<lparr>min_correct = 3, max_incorrect = 1, ONBOARD_FAIL = ''ONBOARD_FAIL'',
                    ONBOARD_SUCCESS = ''ONBOARD_SUCCESS''\<rparr> \<and>
   handle_act \<lparr>min_correct = 3, max_incorrect = 1, ONBOARD_FAIL = ''ONBOARD_FAIL'',
               ONBOARD_SUCCESS = ''ONBOARD_SUCCESS''\<rparr>
     (onboard_init [] ''q'') \<lparr>act_task_data = Some \<lparr>annotations = Some []\<rparr>\<rparr> =
     Inr (''ONBOARD_FAIL'', (onboard_init [] ''q'')\<lparr>granted_qualifications := [(''q'', 0)]\<rparr>)"
  using handle_act_no_answers
    [of "\<lparr>act_task_data = None\<rparr>"
        "\<lparr>min_correct = 3, max_incorrect = 1, ONBOARD_FAIL = ''ONBOARD_FAIL'',
          ONBOARD_SUCCESS = ''ONBOARD_SUCCESS''\<rparr>" "onboard_init [] ''q''" "\<lparr>annotations = Some []\<rparr>"]
    handle_act_no_answers
    [of "\<lparr>act_task_data = Some \<lparr>annotations = Some []\<rparr>\<rparr>"
        "\<lparr>min_correct = 3, max_incorrect = 1, ONBOARD_FAIL = ''ONBOARD_FAIL'',
          ONBOARD_SUCCESS = ''ONBOARD_SUCCESS''\<rparr>" "onboard_init [] ''q''"
        "\<lparr>annotations = Some []\<rparr>"]
  by (simp add: onboard_init_def)

text \<open>
  The claim as stated fails. An act whose \<^verbatim>\<open>task_data\<close> has no \<^verbatim>\<open>annotations\<close> carries no
  answer and raises \<^verbatim>\<open>KeyError\<close>; and with \<open>min_correct\<close> 0 an empty list of answers passes.
\<close>

theorem handle_act_no_answers_counterexample:
  "handle_act \<lparr>min_correct = 3, max_incorrect = 1, ONBOARD_FAIL = ''ONBOARD_FAIL'',
               ONBOARD_SUCCESS = ''ONBOARD_SUCCESS''\<rparr>
     (onboard_init [] ''q'') \<lparr>act_task_data = Some \<lparr>annotations = None\<rparr>\<rparr> = Inl KeyError \<and>
   handle_act \<lparr>min_correct = 0, max_incorrect = 1, ONBOARD_FAIL = ''ONBOARD_FAIL'',
               ONBOARD_SUCCESS = ''ONBOARD_SUCCESS''\<rparr>
     (onboard_init [] ''q'') \<lparr>act_task_data = Some \<lparr>annotations = Some []\<rparr>\<rparr> =
     Inr (''ONBOARD_SUCCESS'', (onboard_init [] ''q'')\<lparr>episodeDone := True\<rparr>)"
  by (simp add: handle_act_def check_onboarding_answers_empty)

subsection \<open>C10: the outcome histogram\<close>

text \<open>
  Claim C10. A new onboarding world has the status \<^verbatim>\<open>DISCONNECT\<close>. \<^verbatim>\<open>shutdown\<close> adds one to
  the counter of the world's status (starting it at 0 when missing) and leaves every
  other key alone; so a world that is shut down before any decision counts under
  \<^verbatim>\<open>DISCONNECT\<close>. A \<^verbatim>\<open>parley\<close> that returns has set the status to the fail or the success
  constant.
\<close>

theorem onboard_shutdown_counts:
  "status (onboard_init task_data qual) = ''DISCONNECT'' \<and>
   onboard_shutdown w stats (status w) =
     Some ((case stats (status w) of None \<Rightarrow> 0 | Some n \<Rightarrow> n) + 1) \<and>
   (\<forall>k. k \<noteq> status w \<longrightarrow> onboard_shutdown w stats k = stats k) \<and>
   onboard_shutdown (onboard_init task_data qual) stats ''DISCONNECT'' =
     Some ((case stats ''DISCONNECT'' of None \<Rightarrow> 0 | Some n \<Rightarrow> n) + 1) \<and>
   (onboard_parley c (onboard_init task_data qual) act = Inr w' \<longrightarrow>
      status w' = ONBOARD_FAIL c \<or> status w' = ONBOARD_SUCCESS c)"
  by (auto simp: onboard_init_def onboard_shutdown_def onboard_parley_def handle_act_def
           split: option.splits if_splits)

theorem onboard_shutdown_counts_witness:
  "''ONBOARD_SUCCESS'' \<noteq> status (onboard_init [] ''q'') \<and>
   onboard_shutdown (onboard_init [] ''q'') [''ONBOARD_SUCCESS'' \<mapsto> 4] ''ONBOARD_SUCCESS'' = Some 4 \<and>
   onboard_shutdown (onboard_init [] ''q'') [''ONBOARD_SUCCESS'' \<mapsto> 4] ''DISCONNECT'' = Some 1 \<and>
   onboard_parley \<lparr>min_correct = 3, max_incorrect = 1, ONBOARD_FAIL = ''ONBOARD_FAIL'',
                   ONBOARD_SUCCESS = ''ONBOARD_SUCCESS''\<rparr>
     (onboard_init [] ''q'') \<lparr>act_task_data = None\<rparr> =
     Inr ((onboard_init [] ''q'')\<lparr>status := ''ONBOARD_FAIL''\<rparr>) \<and>
   status ((onboard_init [] ''q'')\<lparr>status := ''ONBOARD_FAIL''\<rparr>) = ''ONBOARD_FAIL''"
  using onboard_shutdown_counts
    [of "[]" "''q''" "onboard_init [] ''q''" "[''ONBOARD_SUCCESS'' \<mapsto> 4]"
        "\<lparr>min_correct = 3, max_incorrect = 1, ONBOARD_FAIL = ''ONBOARD_FAIL'',
          ONBOARD_SUCCESS = ''ONBOARD_SUCCESS''\<rparr>" "\<lparr>act_task_data = None\<rparr>"
        "(onboard_init [] ''q'')\<lparr>status := ''ONBOARD_FAIL''\<rparr>"]
  by (simp add: onboard_init_def onboard_parley_def handle_act_def)

subsection \<open>C6: configuration errors\<close>

lemma get_persona_utterance_bot_unrecognized:
  "ctx_dataset \<noteq> Some ''wizard_of_wikipedia'' \<Longrightarrow>
   get_persona_utterance w ps ctx_dataset ac True =
     Inr (py_join nl (map ((@) ''your persona: '') ps))"
  by (simp add: get_persona_utterance_def)

lemma get_persona_utterance_bot_no_ValueError:
  "get_persona_utterance w ps ctx_dataset ac True \<noteq> Inl ValueError"
  by (simp add: get_persona_utterance_def Let_def split: option.splits)

lemma get_persona_utterance_human_unrecognized:
  "ctx_dataset \<noteq> Some ''convai2'' \<Longrightarrow> ctx_dataset \<noteq> Some ''empathetic_dialogues'' \<Longrightarrow>
   ctx_dataset \<noteq> Some ''wizard_of_wikipedia'' \<Longrightarrow>
   get_persona_utterance w ps ctx_dataset ac False = Inl ValueError"
  by (simp add: get_persona_utterance_def)

lemma parley_start_unrecognized_mode:
  "conversation_start_mode (opt w) \<noteq> ''bst'' \<Longrightarrow> conversation_start_mode (opt w) \<noteq> ''hi'' \<Longrightarrow>
   \<exists>e. parley_start w b = Inl e"
  unfolding parley_start_def by (simp split: sum.splits)

lemma persona_ok:
  "chat_context_info w = Some ci \<Longrightarrow>
   (context_dataset ci = Some ''wizard_of_wikipedia'' \<longrightarrow> additional_context ci \<noteq> None) \<Longrightarrow>
   \<exists>u. get_persona_utterance w ps (context_dataset ci) (additional_context ci) True = Inr u"
  by (auto simp: get_persona_utterance_def Let_def)

lemma parley_start_unrecognized_mode_ValueError:
  assumes "conversation_start_mode (opt w) \<noteq> ''bst''" "conversation_start_mode (opt w) \<noteq> ''hi''"
   and "\<not> include_persona (opt w) \<or>
     (\<exists>ci. chat_context_info w = Some ci \<and>
        (context_dataset ci = Some ''wizard_of_wikipedia'' \<longrightarrow> additional_context ci \<noteq> None))"
  shows "parley_start w b = Inl ValueError"
proof (cases "include_persona (opt w)")
  case False
  then show ?thesis using assms(1,2) by (simp add: parley_start_def)
next
  case True
  with assms(3) obtain ci where ci: "chat_context_info w = Some ci"
    "context_dataset ci = Some ''wizard_of_wikipedia'' \<longrightarrow> additional_context ci \<noteq> None" by blast
  from persona_ok[OF this, of "map py_strip (persona_2_strings ci)"] obtain u where
    "get_persona_utterance w (map py_strip (persona_2_strings ci)) (context_dataset ci)
       (additional_context ci) True = Inr u" by blast
  then show ?thesis using True ci(1) assms(1,2) by (simp add: parley_start_def)
qed

text \<open>
  Claim C6, as amended. At turn index 0 a conversation start mode other than \<^verbatim>\<open>bst\<close> and
  \<^verbatim>\<open>hi\<close> makes \<^verbatim>\<open>parley\<close> raise, and the error is the \<^verbatim>\<open>ValueError\<close> of the mode whenever
  the persona step before it went through. A context dataset other than the three known
  ones makes \<^verbatim>\<open>_get_persona_utterance\<close> raise \<^verbatim>\<open>ValueError\<close> on the human side
  (\<^verbatim>\<open>is_bot=False\<close>) only; on the bot side, the one \<^verbatim>\<open>parley\<close> calls, it returns the
  persona lines without any additional context.
\<close>

theorem unrecognized_configuration_errors:
  "(task_turn_idx w = 0 \<and> conversation_start_mode (opt w) \<noteq> ''bst'' \<and>
      conversation_start_mode (opt w) \<noteq> ''hi'' \<longrightarrow>
        (\<exists>e. parley w human_act bot_act = Inl e) \<and>
        (\<not> include_persona (opt w) \<or>
           (\<exists>ci. chat_context_info w = Some ci \<and>
              (context_dataset ci = Some ''wizard_of_wikipedia'' \<longrightarrow> additional_context ci \<noteq> None))
         \<longrightarrow> parley w human_act bot_act = Inl ValueError)) \<and>
   (ctx_dataset \<noteq> Some ''convai2'' \<and> ctx_dataset \<noteq> Some ''empathetic_dialogues'' \<and>
      ctx_dataset \<noteq> Some ''wizard_of_wikipedia'' \<longrightarrow>
        get_persona_utterance w ps ctx_dataset ac False = Inl ValueError \<and>
        get_persona_utterance w ps ctx_dataset ac True =
          Inr (py_join nl (map ((@) ''your persona: '') ps)))"
proof (intro conjI impI)
  assume a: "task_turn_idx w = 0 \<and> conversation_start_mode (opt w) \<noteq> ''bst'' \<and>
      conversation_start_mode (opt w) \<noteq> ''hi''"
  then show "\<exists>e. parley w human_act bot_act = Inl e"
    using parley_start_unrecognized_mode[of w bot_act] by (simp add: parley_def)
  assume "\<not> include_persona (opt w) \<or>
           (\<exists>ci. chat_context_info w = Some ci \<and>
              (context_dataset ci = Some ''wizard_of_wikipedia'' \<longrightarrow> additional_context ci \<noteq> None))"
  then show "parley w human_act bot_act = Inl ValueError"
    using a parley_start_unrecognized_mode_ValueError[of w bot_act] by (simp add: parley_def)
next
  assume b: "ctx_dataset \<noteq> Some ''convai2'' \<and> ctx_dataset \<noteq> Some ''empathetic_dialogues'' \<and>
      ctx_dataset \<noteq> Some ''wizard_of_wikipedia''"
  then show "get_persona_utterance w ps ctx_dataset ac False = Inl ValueError"
    by (simp add: get_persona_utterance_human_unrecognized)
  from b show "get_persona_utterance w ps ctx_dataset ac True =
          Inr (py_join nl (map ((@) ''your persona: '') ps))"
    by (simp add: get_persona_utterance_bot_unrecognized)
qed

theorem unrecognized_configuration_errors_witness:
  "task_turn_idx
     (\<lparr>opt = \<lparr>num_turns = 2, include_persona = True, conversation_start_mode = ''other'',
                check_acceptability = False\<rparr>,
         task_turn_idx = 0, dialog = [], chat_done = False,
         chat_context_info =
           Some \<lparr>persona_1_strings = [''I like tea.''], persona_2_strings = ['' I have a dog. ''],
                 context_dataset = Some ''unknown_dataset'', additional_context = None,
                 person1_seed_utterance = ''How are you?'',
                 person2_seed_utterance = ''Fine, and you?''\<rparr>,
         agent_id = ''Worker'', bot_id = ''Bot''\<rparr>) = 0 \<and>
   parley
     (\<lparr>opt = \<lparr>num_turns = 2, include_persona = True, conversation_start_mode = ''other'',
                check_acceptability = False\<rparr>,
         task_turn_idx = 0, dialog = [], chat_done = False,
         chat_context_info =
           Some \<lparr>persona_1_strings = [''I like tea.''], persona_2_strings = ['' I have a dog. ''],
                 context_dataset = Some ''unknown_dataset'', additional_context = None,
                 person1_seed_utterance = ''How are you?'',
                 person2_seed_utterance = ''Fine, and you?''\<rparr>,
         agent_id = ''Worker'', bot_id = ''Bot''\<rparr>)
     \<lparr>msg_text = Some ''Hello!'', msg_id = Some ''Bot'', msg_task_data = None\<rparr>
     \<lparr>msg_text = Some ''Hello!'', msg_id = Some ''Bot'', msg_task_data = None\<rparr> = Inl ValueError \<and>
   get_persona_utterance
     (\<lparr>opt = \<lparr>num_turns = 2, include_persona = True, conversation_start_mode = ''other'',
                check_acceptability = False\<rparr>,
         task_turn_idx = 0, dialog = [], chat_done = False,
         chat_context_info =
           Some \<lparr>persona_1_strings = [''I like tea.''], persona_2_strings = ['' I have a dog. ''],
                 context_dataset = Some ''unknown_dataset'', additional_context = None,
                 person1_seed_utterance = ''How are you?'',
                 person2_seed_utterance = ''Fine, and you?''\<rparr>,
         agent_id = ''Worker'', bot_id = ''Bot''\<rparr>)
     [''I have a dog.''] (Some ''unknown_dataset'') None False = Inl ValueError"
  using unrecognized_configuration_errors
    [of "\<lparr>opt = \<lparr>num_turns = 2, include_persona = True, conversation_start_mode = ''other'',
                check_acceptability = False\<rparr>,
         task_turn_idx = 0, dialog = [], chat_done = False,
         chat_context_info =
           Some \<lparr>persona_1_strings = [''I like tea.''], persona_2_strings = ['' I have a dog. ''],
                 context_dataset = Some ''unknown_dataset'', additional_context = None,
                 person1_seed_utterance = ''How are you?'',
                 person2_seed_utterance = ''Fine, and you?''\<rparr>,
         agent_id = ''Worker'', bot_id = ''Bot''\<rparr>"
        "\<lparr>msg_text = Some ''Hello!'', msg_id = Some ''Bot'', msg_task_data = None\<rparr>"
        "\<lparr>msg_text = Some ''Hello!'', msg_id = Some ''Bot'', msg_task_data = None\<rparr>"
        "Some ''unknown_dataset''" "[''I have a dog.'']" None]
  by simp

text \<open>
  The claim as stated fails for the dataset tag: with a tag that is not recognized the
  bot's persona is built without an error and the opening step of the conversation goes
  through.
\<close>

theorem unrecognized_context_dataset_counterexample:
  "get_persona_utterance
     (\<lparr>opt = \<lparr>num_turns = 2, include_persona = True, conversation_start_mode = ''hi'',
                check_acceptability = False\<rparr>,
         task_turn_idx = 0, dialog = [], chat_done = False,
         chat_context_info =
           Some \<lparr>persona_1_strings = [''I like tea.''], persona_2_strings = ['' I have a dog. ''],
                 context_dataset = Some ''unknown_dataset'', additional_context = None,
                 person1_seed_utterance = ''How are you?'',
                 person2_seed_utterance = ''Fine, and you?''\<rparr>,
         agent_id = ''Worker'', bot_id = ''Bot''\<rparr>)
     [''I have a dog.''] (Some ''unknown_dataset'') None True = Inr ''your persona: I have a dog.'' \<and>
   parley
     (\<lparr>opt = \<lparr>num_turns = 2, include_persona = True, conversation_start_mode = ''hi'',
                check_acceptability = False\<rparr>,
         task_turn_idx = 0, dialog = [], chat_done = False,
         chat_context_info =
           Some \<lparr>persona_1_strings = [''I like tea.''], persona_2_strings = ['' I have a dog. ''],
                 context_dataset = Some ''unknown_dataset'', additional_context = None,
                 person1_seed_utterance = ''How are you?'',
                 person2_seed_utterance = ''Fine, and you?''\<rparr>,
         agent_id = ''Worker'', bot_id = ''Bot''\<rparr>)
     \<lparr>msg_text = Some ''Hello!'', msg_id = Some ''Bot'', msg_task_data = None\<rparr>
     \<lparr>msg_text = Some ''Hello!'', msg_id = Some ''Bot'', msg_task_data = None\<rparr> =
   Inr \<lparr>opt = \<lparr>num_turns = 2, include_persona = True, conversation_start_mode = ''hi'',
                check_acceptability = False\<rparr>,
         task_turn_idx = 1,
         dialog = [\<lparr>agent_idx = 0, utt_text = ''Hi!'', utt_id = ''Worker'', fake_start = True,
                    episode_done = Some False, problem_data = None\<rparr>,
                   \<lparr>agent_idx = 1, utt_text = ''Hello!'', utt_id = ''Bot'', fake_start = False,
                    episode_done = None, problem_data = None\<rparr>],
         chat_done = False,
         chat_context_info =
           Some \<lparr>persona_1_strings = [''I like tea.''], persona_2_strings = ['' I have a dog. ''],
                 context_dataset = Some ''unknown_dataset'', additional_context = None,
                 person1_seed_utterance = ''How are you?'',
                 person2_seed_utterance = ''Fine, and you?''\<rparr>,
         agent_id = ''Worker'', bot_id = ''Bot''\<rparr>"
  by (simp add: parley_def parley_start_def get_persona_utterance_def)

subsection \<open>C8: the choice of the bot\<close>

lemma remaining_counts_map:
  "fst ` set cn \<subseteq> dom rs \<Longrightarrow>
   remaining_counts cn rs = Inr (map (\<lambda>mc. (fst mc, snd mc - the (rs (fst mc)))) cn)"
  by (induction cn rs rule: remaining_counts.induct) (auto split: option.splits)

lemma hd_filter_index:
  "\<exists>x \<in> set xs. P x \<Longrightarrow>
   \<exists>i < length xs. xs ! i = hd (filter P xs) \<and> P (xs ! i) \<and> (\<forall>j < i. \<not> P (xs ! j))"
proof (induction xs)
  case Nil
  then show ?case by simp
next
  case (Cons x xs)
  show ?case
  proof (cases "P x")
    case True
    then show ?thesis by (intro exI[of _ 0]) simp
  next
    case False
    with Cons.prems have "\<exists>x \<in> set xs. P x" by auto
    from Cons.IH[OF this] obtain i where i: "i < length xs" "xs ! i = hd (filter P xs)"
      "P (xs ! i)" "\<forall>j < i. \<not> P (xs ! j)" by blast
    show ?thesis
    proof (intro exI[of _ "Suc i"] conjI allI impI)
      fix j assume "j < Suc i"
      then show "\<not> P ((x # xs) ! j)" using i(4) False by (cases j) auto
    qed (use i False in auto)
  qed
qed

lemma last_filter_keep:
  "xs \<noteq> [] \<Longrightarrow> P (last xs) \<Longrightarrow> last (filter P xs) = last xs"
  by (induction xs rule: rev_induct) simp_all

lemma sort_reverse_key_length: "length (sort_reverse_key f xs) = length xs"
  by (simp add: sort_reverse_key_def)

lemma sorted_map_le_last:
  "sorted (map f zs) \<Longrightarrow> z \<in> set zs \<Longrightarrow> f z \<le> f (last zs)"
proof (induction zs)
  case Nil then show ?case by simp
next
  case (Cons a zs)
  then show ?case by (cases zs) auto
qed

lemma hd_sort_reverse_key:
  assumes "xs \<noteq> []"
  shows "hd (sort_reverse_key f xs) = hd (filter (\<lambda>y. f y = f (hd (sort_reverse_key f xs))) xs) \<and>
         hd (sort_reverse_key f xs) \<in> set xs \<and>
         (\<forall>x \<in> set xs. f x \<le> f (hd (sort_reverse_key f xs)))"
proof -
  define zs where "zs = sort_key f (rev xs)"
  have "length zs = length xs" by (simp add: zs_def)
  then have ne: "zs \<noteq> []" using assms by auto
  have hd_eq: "hd (sort_reverse_key f xs) = last zs"
    using ne by (simp add: sort_reverse_key_def zs_def hd_rev)
  define M where "M = f (last zs)"
  have "last zs = last (filter (\<lambda>y. f y = M) zs)"
    using ne by (simp add: last_filter_keep M_def)
  also have "filter (\<lambda>y. f y = M) zs = filter (\<lambda>y. f y = M) (rev xs)"
    unfolding zs_def by (rule sort_key_stable)
  also have "\<dots> = rev (filter (\<lambda>y. f y = M) xs)" by (simp add: rev_filter)
  finally have a: "last zs = last (rev (filter (\<lambda>y. f y = M) xs))" .
  have "last zs \<in> set zs" using ne by simp
  then have mem: "last zs \<in> set xs" by (simp add: zs_def)
  then have "filter (\<lambda>y. f y = M) xs \<noteq> []"
    by (auto simp: filter_empty_conv M_def)
  with a have b: "last zs = hd (filter (\<lambda>y. f y = M) xs)" by (simp add: last_rev)
  have srt: "sorted (map f zs)" unfolding zs_def by simp
  have c: "\<forall>x \<in> set xs. f x \<le> f (last zs)"
  proof
    fix x assume "x \<in> set xs"
    then have "x \<in> set zs" by (simp add: zs_def)
    with srt show "f x \<le> f (last zs)" by (rule sorted_map_le_last)
  qed
  show ?thesis using b c mem unfolding hd_eq M_def by simp
qed

lemma first_max_index:
  assumes "xs \<noteq> []"
  shows "\<exists>i < length xs. hd (sort_reverse_key f xs) = xs ! i \<and>
           (\<forall>j < length xs. f (xs ! j) \<le> f (xs ! i)) \<and> (\<forall>j < i. f (xs ! j) < f (xs ! i))"
proof -
  let ?h = "hd (sort_reverse_key f xs)"
  from hd_sort_reverse_key[OF assms, of f]
  have h: "?h = hd (filter (\<lambda>y. f y = f ?h) xs)" "?h \<in> set xs" "\<forall>x \<in> set xs. f x \<le> f ?h"
    by blast+
  from h(2) have "\<exists>x \<in> set xs. f x = f ?h" by blast
  from hd_filter_index[of xs "\<lambda>y. f y = f ?h", OF this]
  obtain i where i: "i < length xs" "xs ! i = hd (filter (\<lambda>y. f y = f ?h) xs)"
     "f (xs ! i) = f ?h" "\<forall>j < i. f (xs ! j) \<noteq> f ?h" by blast
  have "?h = xs ! i" using h(1) i(2) by simp
  moreover have "\<forall>j < length xs. f (xs ! j) \<le> f (xs ! i)"
    using h(3) i(3) by simp
  moreover have "\<forall>j < i. f (xs ! j) < f (xs ! i)"
  proof (intro allI impI)
    fix j assume "j < i"
    then have "j < length xs" using i(1) by simp
    then have "f (xs ! j) \<le> f ?h" using h(3) by simp
    moreover have "f (xs ! j) \<noteq> f ?h" using i(4) \<open>j < i\<close> by simp
    ultimately show "f (xs ! j) < f (xs ! i)" using i(3) by simp
  qed
  ultimately show ?thesis using i(1) by blast
qed

text \<open>
  Claim C8. When \<^verbatim>\<open>conversations_needed\<close> is not empty and each of its names has a
  counter in \<^verbatim>\<open>run_statistics\<close>, the choice returns a name of \<^verbatim>\<open>conversations_needed\<close>
  whose remaining need (conversations needed minus the counter) is the largest, the first
  such name in the order of the dict, and the new \<^verbatim>\<open>run_statistics\<close> is the old one with
  the counter of that name one higher.
\<close>

theorem decide_on_bot_largest_need:
  assumes "conversations_needed \<noteq> []"
    and "fst ` set conversations_needed \<subseteq> dom run_statistics"
  shows "\<exists>i < length conversations_needed.
           decide_on_bot conversations_needed run_statistics =
             Inr (fst (conversations_needed ! i),
                  run_statistics(fst (conversations_needed ! i) \<mapsto>
                    the (run_statistics (fst (conversations_needed ! i))) + 1)) \<and>
           (\<forall>j < length conversations_needed.
              snd (conversations_needed ! j) - the (run_statistics (fst (conversations_needed ! j)))
              \<le> snd (conversations_needed ! i) - the (run_statistics (fst (conversations_needed ! i)))) \<and>
           (\<forall>j < i.
              snd (conversations_needed ! j) - the (run_statistics (fst (conversations_needed ! j)))
              < snd (conversations_needed ! i) - the (run_statistics (fst (conversations_needed ! i))))"
proof -
  let ?cn = conversations_needed and ?rs = run_statistics
  let ?g = "\<lambda>mc. (fst mc, snd mc - the (?rs (fst mc)))"
  let ?rcn = "map ?g ?cn"
  have rc: "remaining_counts ?cn ?rs = Inr ?rcn"
    using assms(2) by (rule remaining_counts_map)
  have ne: "?rcn \<noteq> []" using assms(1) by simp
  from first_max_index[OF ne, of snd]
  obtain i where i: "i < length ?rcn" "hd (sort_reverse_key snd ?rcn) = ?rcn ! i"
    "\<forall>j < length ?rcn. snd (?rcn ! j) \<le> snd (?rcn ! i)"
    "\<forall>j < i. snd (?rcn ! j) < snd (?rcn ! i)" by blast
  have len: "i < length ?cn" using i(1) by simp
  have "length (sort_reverse_key snd ?rcn) = length ?rcn" by (rule sort_reverse_key_length)
  then have sne: "sort_reverse_key snd ?rcn \<noteq> []"
    using ne by (metis length_0_conv)
  then have nth0: "py_nth (sort_reverse_key snd ?rcn) 0 = Inr (?rcn ! i)"
    using i(2) by (simp add: py_nth_def py_index_def hd_conv_nth)
  have fst_i: "fst (?rcn ! i) = fst (?cn ! i)" using len by simp
  have "?cn ! i \<in> set ?cn" using len by simp
  then have "fst (?cn ! i) \<in> dom ?rs" using assms(2) by blast
  then obtain n where n: "?rs (fst (?cn ! i)) = Some n" by blast
  have dec: "decide_on_bot ?cn ?rs =
      Inr (fst (?cn ! i), ?rs(fst (?cn ! i) \<mapsto> the (?rs (fst (?cn ! i))) + 1))"
    using len n by (simp add: decide_on_bot_def rc nth0 Let_def)
  have all_le: "\<forall>j < length ?cn. snd (?cn ! j) - the (?rs (fst (?cn ! j)))
              \<le> snd (?cn ! i) - the (?rs (fst (?cn ! i)))"
    using i(3) len by simp
  have all_lt: "\<forall>j < i. snd (?cn ! j) - the (?rs (fst (?cn ! j)))
              < snd (?cn ! i) - the (?rs (fst (?cn ! i)))"
  proof (intro allI impI)
    fix j assume ji: "j < i"
    then have "j < length ?cn" using len by simp
    then show "snd (?cn ! j) - the (?rs (fst (?cn ! j))) < snd (?cn ! i) - the (?rs (fst (?cn ! i)))"
      using i(4) ji len by simp
  qed
  show ?thesis using len dec all_le all_lt by blast
qed

theorem decide_on_bot_largest_need_witness:
  "[(''a'', 5), (''b'', 7), (''c'', 6)] \<noteq> [] \<and>
   fst ` set [(''a'', 5::int), (''b'', 7), (''c'', 6)] \<subseteq> dom [''a'' \<mapsto> 2::int, ''b'' \<mapsto> 3, ''c'' \<mapsto> 2] \<and>
   decide_on_bot [(''a'', 5), (''b'', 7), (''c'', 6)] [''a'' \<mapsto> 2, ''b'' \<mapsto> 3, ''c'' \<mapsto> 2] =
     Inr (''b'', [''a'' \<mapsto> 2, ''b'' \<mapsto> 3, ''c'' \<mapsto> 2](''b'' \<mapsto> 4))"
  using decide_on_bot_largest_need
    [of "[(''a'', 5), (''b'', 7), (''c'', 6)]" "[''a'' \<mapsto> 2, ''b'' \<mapsto> 3, ''c'' \<mapsto> 2]"]
  by (simp add: decide_on_bot_def sort_reverse_key_def py_nth_def py_index_def Let_def)

subsection \<open>The first piece of a split text\<close>

lemma split_aux_not_Nil: "split_aux sep cur s \<noteq> []"
  by (induction sep cur s rule: split_aux.induct) auto

lemma hd_split_aux:
  "sep \<noteq> [] \<Longrightarrow>
   (\<exists>pre rest. s = pre @ sep @ rest \<and> hd (split_aux sep cur s) = rev cur @ pre \<and>
        (\<forall>k < length pre. \<not> prefix sep (drop k s))) \<or>
   (hd (split_aux sep cur s) = rev cur @ s \<and> (\<forall>k. \<not> prefix sep (drop k s)))"
proof (induction sep cur s rule: split_aux.induct)
  case (1 sep cur)
  then show ?case by simp
next
  case (2 sep cur c cs)
  show ?case
  proof (cases "prefix sep (c # cs)")
    case True
    have h: "hd (split_aux sep cur (c # cs)) = rev cur @ []"
      using True 2(3) by simp
    from True obtain rest where "c # cs = sep @ rest" by (auto simp: prefix_def)
    then have "c # cs = [] @ sep @ rest" by simp
    moreover have "\<forall>k < length ([]::string). \<not> prefix sep (drop k (c # cs))" by simp
    ultimately show ?thesis using h by blast
  next
    case False
    then have eq: "split_aux sep cur (c # cs) = split_aux sep (c # cur) cs" by simp
    from 2(2)[OF _ 2(3)] False
    consider (a) pre rest where "cs = pre @ sep @ rest"
        "hd (split_aux sep (c # cur) cs) = rev (c # cur) @ pre"
        "\<forall>k < length pre. \<not> prefix sep (drop k cs)"
      | (b) "hd (split_aux sep (c # cur) cs) = rev (c # cur) @ cs" "\<forall>k. \<not> prefix sep (drop k cs)"
      by blast
    then show ?thesis
    proof cases
      case a
      have "\<forall>k < length (c # pre). \<not> prefix sep (drop k (c # cs))"
      proof (intro allI impI)
        fix k assume "k < length (c # pre)"
        then show "\<not> prefix sep (drop k (c # cs))"
          using False a(3) by (cases k) auto
      qed
      moreover have "c # cs = (c # pre) @ sep @ rest" using a(1) by simp
      moreover have "hd (split_aux sep cur (c # cs)) = rev cur @ (c # pre)"
        using a(2) eq by simp
      ultimately show ?thesis by blast
    next
      case b
      have "\<forall>k. \<not> prefix sep (drop k (c # cs))"
      proof
        fix k show "\<not> prefix sep (drop k (c # cs))"
          using False b(2) by (cases k) auto
      qed
      moreover have "hd (split_aux sep cur (c # cs)) = rev cur @ (c # cs)"
        using b(1) eq by simp
      ultimately show ?thesis by blast
    qed
  qed
qed

lemma first_piece:
  "\<exists>piece. py_split ''<br>'' t = Inr (split_aux ''<br>'' [] t) \<and>
     py_nth (split_aux ''<br>'' [] t) 0 = Inr piece \<and>
     ((\<exists>rest. t = piece @ ''<br>'' @ rest \<and> (\<forall>k < length piece. \<not> prefix ''<br>'' (drop k t))) \<or>
      (piece = t \<and> (\<forall>k. \<not> prefix ''<br>'' (drop k t))))"
proof -
  let ?ps = "split_aux ''<br>'' [] t"
  have ne: "?ps \<noteq> []" by (rule split_aux_not_Nil)
  then have n0: "py_nth ?ps 0 = Inr (hd ?ps)"
    by (simp add: py_nth_def py_index_def hd_conv_nth)
  have sp: "py_split ''<br>'' t = Inr ?ps" by (simp add: py_split_def)
  have "''<br>'' \<noteq> []" by simp
  from hd_split_aux[OF this, of t "[]"]
  have "(\<exists>rest. t = hd ?ps @ ''<br>'' @ rest \<and> (\<forall>k < length (hd ?ps). \<not> prefix ''<br>'' (drop k t))) \<or>
      (hd ?ps = t \<and> (\<forall>k. \<not> prefix ''<br>'' (drop k t)))"
    by auto
  with n0 sp show ?thesis by blast
qed

subsection \<open>One agent's turn in the loop\<close>

lemma py_index_minus_one: "py_index n (- 1) = (if n = 0 then None else Some (n - 1))"
  by (auto simp: py_index_def Let_def nat_diff_distrib)

lemma add_problem_data_last:
  "add_problem_data_to_utterance p (- 1) w =
     (if dialog w = [] then Inl IndexError
      else Inr (w\<lparr>dialog := (dialog w)[length (dialog w) - 1 :=
                                (last (dialog w))\<lparr>problem_data := Some p\<rparr>]\<rparr>))"
  by (simp add: add_problem_data_to_utterance_def py_index_minus_one last_conv_nth)

lemma py_index_bound: "py_index n i = Some k \<Longrightarrow> k < n"
  by (auto simp: py_index_def Let_def split: if_splits)

lemma add_problem_data_fields:
  assumes "add_problem_data_to_utterance p i w = Inr w'"
  shows "opt w' = opt w" "task_turn_idx w' = task_turn_idx w" "chat_done w' = chat_done w"
    "length (dialog w') = length (dialog w)"
    "chat_context_info w' = chat_context_info w"
  using assms by (auto simp: add_problem_data_to_utterance_def split: option.splits)

lemma add_problem_data_map:
  assumes "add_problem_data_to_utterance p i w = Inr w'"
    and "\<And>u v. f (u\<lparr>problem_data := v\<rparr>) = f u"
  shows "map f (dialog w') = map f (dialog w)"
proof -
  from assms(1) obtain k where k: "py_index (length (dialog w)) i = Some k"
    "w' = w\<lparr>dialog := (dialog w)[k := (dialog w ! k)\<lparr>problem_data := Some p\<rparr>]\<rparr>"
    by (auto simp: add_problem_data_to_utterance_def split: option.splits)
  have "k < length (dialog w)" using k(1) by (rule py_index_bound)
  then show ?thesis using k(2) assms(2) by (simp add: map_update list_update_same_conv)
qed

lemma parley_agent_utterance:
  assumes "get_final_rating act = None" "msg_text act = Some t"
    and "idx = 0 \<longrightarrow> get_problem_data act = Inr p"
  shows "\<exists>w' piece u. parley_agent idx act w = Inr (False, w') \<and>
           ((\<exists>rest. t = piece @ ''<br>'' @ rest \<and> (\<forall>k < length piece. \<not> prefix ''<br>'' (drop k t))) \<or>
            (piece = t \<and> (\<forall>k. \<not> prefix ''<br>'' (drop k t)))) \<and>
           dialog w' = dialog w @ [u] \<and> agent_idx u = idx \<and> utt_text u = piece \<and>
           utt_id u = (case msg_id act of Some i \<Rightarrow> i | None \<Rightarrow> ''NULL_ID'') \<and>
           \<not> fake_start u \<and>
           problem_data u = (if idx = 0 then Some p else None) \<and>
           task_turn_idx w' = task_turn_idx w + 1 \<and> chat_done w' = chat_done w \<and>
           opt w' = opt w \<and> chat_context_info w' = chat_context_info w"
proof -
  from first_piece[of t] obtain piece where pc:
    "py_split ''<br>'' t = Inr (split_aux ''<br>'' [] t)"
    "py_nth (split_aux ''<br>'' [] t) 0 = Inr piece"
    "(\<exists>rest. t = piece @ ''<br>'' @ rest \<and> (\<forall>k < length piece. \<not> prefix ''<br>'' (drop k t))) \<or>
      (piece = t \<and> (\<forall>k. \<not> prefix ''<br>'' (drop k t)))" by blast
  define u0 where "u0 = \<lparr>agent_idx = idx, utt_text = piece,
       utt_id = (case msg_id act of Some i \<Rightarrow> i | None \<Rightarrow> ''NULL_ID''),
       fake_start = False, episode_done = None, problem_data = None\<rparr>"
  show ?thesis
  proof (cases "idx = 0")
    case True
    with assms(3) have gp: "get_problem_data act = Inr p" by simp
    let ?w' = "w\<lparr>dialog := dialog w @ [u0\<lparr>problem_data := Some p\<rparr>],
                  task_turn_idx := task_turn_idx w + 1\<rparr>"
    have "parley_agent idx act w = Inr (False, ?w')"
      using assms(1,2) pc(1,2) gp True
      by (simp add: parley_agent_def Let_def add_problem_data_last u0_def)
    then show ?thesis using pc(3) True by (intro exI[of _ ?w'] exI[of _ piece]
          exI[of _ "u0\<lparr>problem_data := Some p\<rparr>"]) (simp add: u0_def)
  next
    case False
    let ?w' = "w\<lparr>dialog := dialog w @ [u0], task_turn_idx := task_turn_idx w + 1\<rparr>"
    have "parley_agent idx act w = Inr (False, ?w')"
      using assms(1,2) pc(1,2) False
      by (simp add: parley_agent_def Let_def u0_def)
    then show ?thesis using pc(3) False by (intro exI[of _ ?w'] exI[of _ piece]
          exI[of _ u0]) (simp add: u0_def)
  qed
qed

lemma parley_agent_utteranceE:
  assumes "get_final_rating act = None" "msg_text act = Some t"
    and "idx = 0 \<longrightarrow> get_problem_data act = Inr p"
  obtains w' piece u where "parley_agent idx act w = Inr (False, w')"
    "(\<exists>rest. t = piece @ ''<br>'' @ rest \<and> (\<forall>k < length piece. \<not> prefix ''<br>'' (drop k t))) \<or>
            (piece = t \<and> (\<forall>k. \<not> prefix ''<br>'' (drop k t)))"
    "dialog w' = dialog w @ [u]" "agent_idx u = idx" "utt_text u = piece"
    "task_turn_idx w' = task_turn_idx w + 1" "chat_done w' = chat_done w" "opt w' = opt w"
  using parley_agent_utterance[OF assms, of w]
  by (elim exE conjE) (rule that; assumption)

subsection \<open>C9: the break marker\<close>

text \<open>
  Claim C9. In the loop of \<^verbatim>\<open>parley\<close>, when neither act carries a final rating, the two
  acts are recorded in the order human, bot, and the text stored for each of them, the
  human's as well as the bot's, is the text cut at the first \<^verbatim>\<open><br>\<close>: either the act's
  text is the stored text followed by \<^verbatim>\<open><br>\<close> and a rest, with no \<^verbatim>\<open><br>\<close> starting inside
  the stored text, or the act's text has no \<^verbatim>\<open><br>\<close> at all and is stored whole. In the
  \<^verbatim>\<open>hi\<close> start mode the first reply of the bot is stored with the very text of its act.
  The last part is the same fact for one agent's turn alone, whichever the agent: it
  covers the human's utterance that is recorded before an act of the bot ends the chat.
\<close>

theorem parley_truncates_both_sides:
  "(task_turn_idx w \<noteq> 0 \<and> \<not> chat_done w \<and>
    get_final_rating human_act = None \<and> get_final_rating bot_act = None \<and>
    msg_text human_act = Some th \<and> msg_text bot_act = Some tb \<and>
    get_problem_data human_act = Inr p \<longrightarrow>
      (\<exists>w' sh sb. parley w human_act bot_act = Inr w' \<and>
         map utt_text (dialog w') = map utt_text (dialog w) @ [sh, sb] \<and>
         map agent_idx (dialog w') = map agent_idx (dialog w) @ [0, 1] \<and>
         ((\<exists>rest. th = sh @ ''<br>'' @ rest \<and> (\<forall>k < length sh. \<not> prefix ''<br>'' (drop k th))) \<or>
          (sh = th \<and> (\<forall>k. \<not> prefix ''<br>'' (drop k th)))) \<and>
         ((\<exists>rest. tb = sb @ ''<br>'' @ rest \<and> (\<forall>k < length sb. \<not> prefix ''<br>'' (drop k tb))) \<or>
          (sb = tb \<and> (\<forall>k. \<not> prefix ''<br>'' (drop k tb)))))) \<and>
   (task_turn_idx v = 0 \<and> conversation_start_mode (opt v) = ''hi'' \<and>
    parley v first_human_act first_bot_act = Inr v' \<longrightarrow>
      (\<exists>u. dialog v' =
              dialog v @ [\<lparr>agent_idx = 0, utt_text = ''Hi!'', utt_id = agent_id v,
                            fake_start = True, episode_done = Some False, problem_data = None\<rparr>, u] \<and>
           agent_idx u = 1 \<and> msg_text first_bot_act = Some (utt_text u))) \<and>
   (get_final_rating act = None \<and> msg_text act = Some t \<and>
    (idx = 0 \<longrightarrow> get_problem_data act = Inr q) \<longrightarrow>
      (\<exists>x' s. parley_agent idx act x = Inr (False, x') \<and>
         map utt_text (dialog x') = map utt_text (dialog x) @ [s] \<and>
         map agent_idx (dialog x') = map agent_idx (dialog x) @ [idx] \<and>
         ((\<exists>rest. t = s @ ''<br>'' @ rest \<and> (\<forall>k < length s. \<not> prefix ''<br>'' (drop k t))) \<or>
          (s = t \<and> (\<forall>k. \<not> prefix ''<br>'' (drop k t))))))"
proof (intro conjI impI)
  assume a: "task_turn_idx w \<noteq> 0 \<and> \<not> chat_done w \<and>
    get_final_rating human_act = None \<and> get_final_rating bot_act = None \<and>
    msg_text human_act = Some th \<and> msg_text bot_act = Some tb \<and>
    get_problem_data human_act = Inr p"
  from a have fr: "get_final_rating human_act = None" and tx: "msg_text human_act = Some th"
    and gp: "(0::nat) = 0 \<longrightarrow> get_problem_data human_act = Inr p"
    and frb: "get_final_rating bot_act = None" and txb: "msg_text bot_act = Some tb"
    by simp_all
  have nb: "(1::nat) = 0 \<longrightarrow> get_problem_data bot_act = Inr p" by simp
  from parley_agent_utteranceE[OF fr tx gp, of w]
  obtain w1 sh u1 where h:
    "parley_agent 0 human_act w = Inr (False, w1)"
    "(\<exists>rest. th = sh @ ''<br>'' @ rest \<and> (\<forall>k < length sh. \<not> prefix ''<br>'' (drop k th))) \<or>
          (sh = th \<and> (\<forall>k. \<not> prefix ''<br>'' (drop k th)))"
    "dialog w1 = dialog w @ [u1]" "agent_idx u1 = 0" "utt_text u1 = sh" .
  from parley_agent_utteranceE[OF frb txb nb, of w1]
  obtain w2 sb u2 where b:
    "parley_agent 1 bot_act w1 = Inr (False, w2)"
    "(\<exists>rest. tb = sb @ ''<br>'' @ rest \<and> (\<forall>k < length sb. \<not> prefix ''<br>'' (drop k tb))) \<or>
          (sb = tb \<and> (\<forall>k. \<not> prefix ''<br>'' (drop k tb)))"
    "dialog w2 = dialog w1 @ [u2]" "agent_idx u2 = 1" "utt_text u2 = sb" .
  have "parley w human_act bot_act = Inr w2"
    using a h(1) b(1) by (simp add: parley_def parley_loop_def)
  moreover have "map utt_text (dialog w2) = map utt_text (dialog w) @ [sh, sb]"
    using h(3,5) b(3,5) by simp
  moreover have "map agent_idx (dialog w2) = map agent_idx (dialog w) @ [0, 1]"
    using h(3,4) b(3,4) by simp
  ultimately show "\<exists>w' sh sb. parley w human_act bot_act = Inr w' \<and>
         map utt_text (dialog w') = map utt_text (dialog w) @ [sh, sb] \<and>
         map agent_idx (dialog w') = map agent_idx (dialog w) @ [0, 1] \<and>
         ((\<exists>rest. th = sh @ ''<br>'' @ rest \<and> (\<forall>k < length sh. \<not> prefix ''<br>'' (drop k th))) \<or>
          (sh = th \<and> (\<forall>k. \<not> prefix ''<br>'' (drop k th)))) \<and>
         ((\<exists>rest. tb = sb @ ''<br>'' @ rest \<and> (\<forall>k < length sb. \<not> prefix ''<br>'' (drop k tb))) \<or>
          (sb = tb \<and> (\<forall>k. \<not> prefix ''<br>'' (drop k tb))))"
    using h(2) b(2) by blast
next
  assume c: "task_turn_idx v = 0 \<and> conversation_start_mode (opt v) = ''hi'' \<and>
    parley v first_human_act first_bot_act = Inr v'"
  then have "parley_start v first_bot_act = Inr v'" by (auto simp: parley_def)
  with c show "\<exists>u. dialog v' =
              dialog v @ [\<lparr>agent_idx = 0, utt_text = ''Hi!'', utt_id = agent_id v,
                            fake_start = True, episode_done = Some False, problem_data = None\<rparr>, u] \<and>
           agent_idx u = 1 \<and> msg_text first_bot_act = Some (utt_text u)"
    unfolding parley_start_def
    by (auto simp: Let_def split: sum.splits option.splits if_splits)
next
  assume d: "get_final_rating act = None \<and> msg_text act = Some t \<and>
    (idx = 0 \<longrightarrow> get_problem_data act = Inr q)"
  then have fr: "get_final_rating act = None" and tx: "msg_text act = Some t"
    and gp: "idx = 0 \<longrightarrow> get_problem_data act = Inr q" by simp_all
  from parley_agent_utteranceE[OF fr tx gp, of x]
  obtain x' s u where e:
    "parley_agent idx act x = Inr (False, x')"
    "(\<exists>rest. t = s @ ''<br>'' @ rest \<and> (\<forall>k < length s. \<not> prefix ''<br>'' (drop k t))) \<or>
          (s = t \<and> (\<forall>k. \<not> prefix ''<br>'' (drop k t)))"
    "dialog x' = dialog x @ [u]" "agent_idx u = idx" "utt_text u = s" .
  have "map utt_text (dialog x') = map utt_text (dialog x) @ [s]"
    and "map agent_idx (dialog x') = map agent_idx (dialog x) @ [idx]"
    using e(3,4,5) by simp_all
  with e(1,2) show "\<exists>x' s. parley_agent idx act x = Inr (False, x') \<and>
         map utt_text (dialog x') = map utt_text (dialog x) @ [s] \<and>
         map agent_idx (dialog x') = map agent_idx (dialog x) @ [idx] \<and>
         ((\<exists>rest. t = s @ ''<br>'' @ rest \<and> (\<forall>k < length s. \<not> prefix ''<br>'' (drop k t))) \<or>
          (s = t \<and> (\<forall>k. \<not> prefix ''<br>'' (drop k t))))"
    by blast
qed

theorem parley_truncates_both_sides_witness:
  "task_turn_idx
     (\<lparr>opt = \<lparr>num_turns = 1, include_persona = False, conversation_start_mode =
       ''hi'', check_acceptability = True\<rparr>, task_turn_idx = 1, dialog =
       [\<lparr>agent_idx = 0, utt_text = ''Hi!'', utt_id = ''Worker'', fake_start = True,
       episode_done = Some False, problem_data = None\<rparr>, \<lparr>agent_idx = 1, utt_text =
       ''Hello'', utt_id = ''Bot'', fake_start = False, episode_done = None, problem_data =
       None\<rparr>], chat_done = False, chat_context_info = None, agent_id = ''Worker'', bot_id
       = ''Bot''\<rparr>) \<noteq> 0 \<and>
   get_problem_data
     (\<lparr>msg_text = Some ''I like it<br>no'', msg_id = Some ''Worker'', msg_task_data =
       Some \<lparr>final_rating = None, problem_data_for_prior_message = Some
       [(''none_all_good'', True)]\<rparr>\<rparr>) = Inr [(''none_all_good'', True)] \<and>
   parley
     (\<lparr>opt = \<lparr>num_turns = 1, include_persona = False, conversation_start_mode =
       ''hi'', check_acceptability = True\<rparr>, task_turn_idx = 1, dialog =
       [\<lparr>agent_idx = 0, utt_text = ''Hi!'', utt_id = ''Worker'', fake_start = True,
       episode_done = Some False, problem_data = None\<rparr>, \<lparr>agent_idx = 1, utt_text =
       ''Hello'', utt_id = ''Bot'', fake_start = False, episode_done = None, problem_data =
       None\<rparr>], chat_done = False, chat_context_info = None, agent_id = ''Worker'', bot_id
       = ''Bot''\<rparr>)
     (\<lparr>msg_text = Some ''I like it<br>no'', msg_id = Some ''Worker'', msg_task_data =
       Some \<lparr>final_rating = None, problem_data_for_prior_message = Some
       [(''none_all_good'', True)]\<rparr>\<rparr>)
     (\<lparr>msg_text = Some ''Hello there<br>[annotation-ui-markup]'', msg_id = None,
       msg_task_data = None\<rparr>) =
   Inr
     (\<lparr>opt = \<lparr>num_turns = 1, include_persona = False, conversation_start_mode =
       ''hi'', check_acceptability = True\<rparr>, task_turn_idx = 3, dialog =
       [\<lparr>agent_idx = 0, utt_text = ''Hi!'', utt_id = ''Worker'', fake_start = True,
       episode_done = Some False, problem_data = None\<rparr>, \<lparr>agent_idx = 1, utt_text =
       ''Hello'', utt_id = ''Bot'', fake_start = False, episode_done = None, problem_data =
       None\<rparr>, \<lparr>agent_idx = 0, utt_text = ''I like it'', utt_id = ''Worker'',
       fake_start = False, episode_done = None, problem_data = Some [(''none_all_good'',
       True)]\<rparr>, \<lparr>agent_idx = 1, utt_text = ''Hello there'', utt_id = ''NULL_ID'',
       fake_start = False, episode_done = None, problem_data = None\<rparr>], chat_done = False,
       chat_context_info = None, agent_id = ''Worker'', bot_id = ''Bot''\<rparr>) \<and>
   parley
     (\<lparr>opt = \<lparr>num_turns = 1, include_persona = False, conversation_start_mode =
       ''hi'', check_acceptability = True\<rparr>, task_turn_idx = 0, dialog = [], chat_done =
       False, chat_context_info = None, agent_id = ''Worker'', bot_id = ''Bot''\<rparr>)
     (\<lparr>msg_text = Some ''I like it<br>no'', msg_id = Some ''Worker'', msg_task_data =
       Some \<lparr>final_rating = None, problem_data_for_prior_message = Some
       [(''none_all_good'', True)]\<rparr>\<rparr>)
     (\<lparr>msg_text = Some ''Hello<br>friend'', msg_id = Some ''Bot'', msg_task_data =
       None\<rparr>) =
   Inr
     (\<lparr>opt = \<lparr>num_turns = 1, include_persona = False, conversation_start_mode =
       ''hi'', check_acceptability = True\<rparr>, task_turn_idx = 1, dialog =
       [\<lparr>agent_idx = 0, utt_text = ''Hi!'', utt_id = ''Worker'', fake_start = True,
       episode_done = Some False, problem_data = None\<rparr>, \<lparr>agent_idx = 1, utt_text =
       ''Hello<br>friend'', utt_id = ''Bot'', fake_start = False, episode_done = None,
       problem_data = None\<rparr>], chat_done = False, chat_context_info = None, agent_id =
       ''Worker'', bot_id = ''Bot''\<rparr>) \<and>
   parley_agent 0
     (\<lparr>msg_text = Some ''I like it<br>no'', msg_id = Some ''Worker'', msg_task_data =
       Some \<lparr>final_rating = None, problem_data_for_prior_message = Some
       [(''none_all_good'', True)]\<rparr>\<rparr>)
     (\<lparr>opt = \<lparr>num_turns = 1, include_persona = False, conversation_start_mode =
       ''hi'', check_acceptability = True\<rparr>, task_turn_idx = 1, dialog =
       [\<lparr>agent_idx = 0, utt_text = ''Hi!'', utt_id = ''Worker'', fake_start = True,
       episode_done = Some False, problem_data = None\<rparr>, \<lparr>agent_idx = 1, utt_text =
       ''Hello'', utt_id = ''Bot'', fake_start = False, episode_done = None, problem_data =
       None\<rparr>], chat_done = False, chat_context_info = None, agent_id = ''Worker'', bot_id
       = ''Bot''\<rparr>) =
   Inr (False,
     \<lparr>opt = \<lparr>num_turns = 1, include_persona = False, conversation_start_mode =
       ''hi'', check_acceptability = True\<rparr>, task_turn_idx = 2, dialog =
       [\<lparr>agent_idx = 0, utt_text = ''Hi!'', utt_id = ''Worker'', fake_start = True,
       episode_done = Some False, problem_data = None\<rparr>, \<lparr>agent_idx = 1, utt_text =
       ''Hello'', utt_id = ''Bot'', fake_start = False, episode_done = None, problem_data =
       None\<rparr>, \<lparr>agent_idx = 0, utt_text = ''I like it'', utt_id = ''Worker'',
       fake_start = False, episode_done = None, problem_data = Some [(''none_all_good'',
       True)]\<rparr>], chat_done = False, chat_context_info = None, agent_id = ''Worker'',
       bot_id = ''Bot''\<rparr>)"
  using parley_truncates_both_sides
    [of
     "\<lparr>opt = \<lparr>num_turns = 1, include_persona = False, conversation_start_mode =
       ''hi'', check_acceptability = True\<rparr>, task_turn_idx = 1, dialog =
       [\<lparr>agent_idx = 0, utt_text = ''Hi!'', utt_id = ''Worker'', fake_start = True,
       episode_done = Some False, problem_data = None\<rparr>, \<lparr>agent_idx = 1, utt_text =
       ''Hello'', utt_id = ''Bot'', fake_start = False, episode_done = None, problem_data =
       None\<rparr>], chat_done = False, chat_context_info = None, agent_id = ''Worker'', bot_id
       = ''Bot''\<rparr>"
     "\<lparr>msg_text = Some ''I like it<br>no'', msg_id = Some ''Worker'', msg_task_data =
       Some \<lparr>final_rating = None, problem_data_for_prior_message = Some
       [(''none_all_good'', True)]\<rparr>\<rparr>"
     "\<lparr>msg_text = Some ''Hello there<br>[annotation-ui-markup]'', msg_id = None,
       msg_task_data = None\<rparr>"
     "''I like it<br>no''" "''Hello there<br>[annotation-ui-markup]''" "[(''none_all_good'', True)]"
     "\<lparr>opt = \<lparr>num_turns = 1, include_persona = False, conversation_start_mode =
       ''hi'', check_acceptability = True\<rparr>, task_turn_idx = 0, dialog = [], chat_done =
       False, chat_context_info = None, agent_id = ''Worker'', bot_id = ''Bot''\<rparr>"
     "\<lparr>msg_text = Some ''I like it<br>no'', msg_id = Some ''Worker'', msg_task_data =
       Some \<lparr>final_rating = None, problem_data_for_prior_message = Some
       [(''none_all_good'', True)]\<rparr>\<rparr>"
     "\<lparr>msg_text = Some ''Hello<br>friend'', msg_id = Some ''Bot'', msg_task_data =
       None\<rparr>"
     "\<lparr>opt = \<lparr>num_turns = 1, include_persona = False, conversation_start_mode =
       ''hi'', check_acceptability = True\<rparr>, task_turn_idx = 1, dialog =
       [\<lparr>agent_idx = 0, utt_text = ''Hi!'', utt_id = ''Worker'', fake_start = True,
       episode_done = Some False, problem_data = None\<rparr>, \<lparr>agent_idx = 1, utt_text =
       ''Hello<br>friend'', utt_id = ''Bot'', fake_start = False, episode_done = None,
       problem_data = None\<rparr>], chat_done = False, chat_context_info = None, agent_id =
       ''Worker'', bot_id = ''Bot''\<rparr>"
     "\<lparr>msg_text = Some ''I like it<br>no'', msg_id = Some ''Worker'', msg_task_data =
       Some \<lparr>final_rating = None, problem_data_for_prior_message = Some
       [(''none_all_good'', True)]\<rparr>\<rparr>"
     "''I like it<br>no''" 0 "[(''none_all_good'', True)]"
     "\<lparr>opt = \<lparr>num_turns = 1, include_persona = False, conversation_start_mode =
       ''hi'', check_acceptability = True\<rparr>, task_turn_idx = 1, dialog =
       [\<lparr>agent_idx = 0, utt_text = ''Hi!'', utt_id = ''Worker'', fake_start = True,
       episode_done = Some False, problem_data = None\<rparr>, \<lparr>agent_idx = 1, utt_text =
       ''Hello'', utt_id = ''Bot'', fake_start = False, episode_done = None, problem_data =
       None\<rparr>], chat_done = False, chat_context_info = None, agent_id = ''Worker'', bot_id
       = ''Bot''\<rparr>"]
  by (simp add: parley_def parley_loop_def parley_start_def parley_agent_def get_final_rating_def
      get_problem_data_def py_split_def py_nth_def py_index_def add_problem_data_to_utterance_def)

subsection \<open>C4: the final rating\<close>

text \<open>
  What holds of a final rating on either side. The chat is marked done, no utterance is
  recorded and the turn index stays. When the turn index is not greater than \<open>num_turns\<close>
  the problem data is discarded; when it is greater, the problem data is attached to the
  entry at the Python index \<open>idx - 1\<close> of the dialog.
\<close>

lemma parley_agent_final_rating_low:
  "get_final_rating act = Some r \<Longrightarrow> task_turn_idx w \<le> num_turns (opt w) \<Longrightarrow>
   parley_agent idx act w = Inr (True, w\<lparr>chat_done := True\<rparr>)"
  by (simp add: parley_agent_def Let_def)

lemma parley_agent_final_rating_high:
  "get_final_rating act = Some r \<Longrightarrow> task_turn_idx w > num_turns (opt w) \<Longrightarrow>
   get_problem_data act = Inr p \<Longrightarrow> py_index (length (dialog w)) (int idx - 1) = Some k \<Longrightarrow>
   parley_agent idx act w =
     Inr (True, w\<lparr>chat_done := True,
                  dialog := (dialog w)[k := (dialog w ! k)\<lparr>problem_data := Some p\<rparr>]\<rparr>)"
  by (simp add: parley_agent_def Let_def add_problem_data_to_utterance_def)

text \<open>
  On the human side the index is -1: the problem data goes to the last entry of the
  dialog, the utterance just before the act, and the bot is not asked.
\<close>

lemma parley_final_rating_human:
  "task_turn_idx w \<noteq> 0 \<and> \<not> chat_done w \<and> get_final_rating human_act = Some r \<longrightarrow>
     (task_turn_idx w > num_turns (opt w) \<and> get_problem_data human_act = Inr p \<and> dialog w \<noteq> [] \<longrightarrow>
        parley w human_act bot_act =
          Inr (w\<lparr>chat_done := True,
                 dialog := (dialog w)[length (dialog w) - 1 :=
                                        (last (dialog w))\<lparr>problem_data := Some p\<rparr>]\<rparr>)) \<and>
     (task_turn_idx w \<le> num_turns (opt w) \<longrightarrow>
        parley w human_act bot_act = Inr (w\<lparr>chat_done := True\<rparr>))"
  by (simp add: parley_def parley_loop_def parley_agent_def add_problem_data_last Let_def)


subsection \<open>The dialog along a conversation\<close>

lemma parley_agent_Inr:
  assumes "parley_agent idx act w = Inr (r, w')"
    and f: "\<And>u v. f (u\<lparr>problem_data := v\<rparr>) = f u"
  shows "opt w' = opt w"
    and "r \<Longrightarrow> chat_done w' \<and> task_turn_idx w' = task_turn_idx w \<and>
               map f (dialog w') = map f (dialog w)"
    and "\<not> r \<Longrightarrow> chat_done w' = chat_done w \<and> task_turn_idx w' = task_turn_idx w + 1 \<and>
               (\<exists>u. agent_idx u = idx \<and> map f (dialog w') = map f (dialog w) @ [f u])"
proof -
  show "opt w' = opt w"
    using assms(1) unfolding parley_agent_def Let_def
    by (auto split: if_splits sum.splits option.splits dest: add_problem_data_fields(1))
  show "chat_done w' \<and> task_turn_idx w' = task_turn_idx w \<and>
               map f (dialog w') = map f (dialog w)" if r
  proof (cases "get_final_rating act = None")
    case True
    then show ?thesis using assms(1) that unfolding parley_agent_def Let_def
      by (auto split: if_splits sum.splits option.splits)
  next
    case False
    show ?thesis
    proof (cases "task_turn_idx w > num_turns (opt w)")
      case gt: True
      with False assms(1) obtain p where
        ad: "add_problem_data_to_utterance p (int idx - 1) (w\<lparr>chat_done := True\<rparr>) = Inr w'"
        unfolding parley_agent_def Let_def by (auto split: sum.splits)
      from add_problem_data_fields[OF ad] add_problem_data_map[OF ad, of f] f
      show ?thesis by simp
    next
      case le: False
      with False assms(1) have "w' = w\<lparr>chat_done := True\<rparr>"
        unfolding parley_agent_def Let_def by auto
      then show ?thesis by simp
    qed
  qed
  show "chat_done w' = chat_done w \<and> task_turn_idx w' = task_turn_idx w + 1 \<and>
               (\<exists>u. agent_idx u = idx \<and> map f (dialog w') = map f (dialog w) @ [f u])" if "\<not> r"
  proof (cases "get_final_rating act = None")
    case False
    then show ?thesis using assms(1) that unfolding parley_agent_def Let_def
      by (auto split: if_splits sum.splits option.splits)
  next
    case True
    with assms(1) obtain t piece where t: "msg_text act = Some t"
      and pc: "py_nth (split_aux ''<br>'' [] t) 0 = Inr piece"
      unfolding parley_agent_def Let_def py_split_def
      by (auto split: if_splits sum.splits option.splits)
    define u0 where "u0 = \<lparr>agent_idx = idx, utt_text = piece,
       utt_id = (case msg_id act of Some i \<Rightarrow> i | None \<Rightarrow> ''NULL_ID''),
       fake_start = False, episode_done = None, problem_data = None\<rparr>"
    define w1 where "w1 = w\<lparr>dialog := dialog w @ [u0]\<rparr>"
    have u0: "agent_idx u0 = idx" by (simp add: u0_def)
    show ?thesis
    proof (cases "idx = 0")
      case z: True
      with True t pc assms(1) obtain p w2 where
        ad: "add_problem_data_to_utterance p (int idx - 1) w1 = Inr w2"
        and w': "w' = w2\<lparr>task_turn_idx := task_turn_idx w2 + 1\<rparr>"
        unfolding parley_agent_def Let_def py_split_def w1_def u0_def
        by (auto split: sum.splits)
      from add_problem_data_fields[OF ad] add_problem_data_map[OF ad, of f] f w'
      have "chat_done w' = chat_done w \<and> task_turn_idx w' = task_turn_idx w + 1 \<and>
            map f (dialog w') = map f (dialog w) @ [f u0]"
        by (simp add: w1_def)
      with u0 show ?thesis by blast
    next
      case nz: False
      with True t pc assms(1) have "w' = w1\<lparr>task_turn_idx := task_turn_idx w1 + 1\<rparr>"
        unfolding parley_agent_def Let_def py_split_def w1_def u0_def
        by (auto split: sum.splits)
      then have "chat_done w' = chat_done w \<and> task_turn_idx w' = task_turn_idx w + 1 \<and>
            map f (dialog w') = map f (dialog w) @ [f u0]"
        by (simp add: w1_def)
      with u0 show ?thesis by blast
    qed
  qed
qed

lemma even_Suc_mod2: "even n \<Longrightarrow> Suc n mod 2 = Suc 0"
  by presburger

lemma parley_start_dialog:
  assumes "parley_start w b = Inr w'"
  shows "\<exists>u1 u2. dialog w' = dialog w @ [u1, u2] \<and> agent_idx u1 = 0 \<and> agent_idx u2 = 1 \<and>
           fake_start u1 \<and>
           (conversation_start_mode (opt w) = ''bst'' \<longrightarrow> fake_start u2) \<and>
           task_turn_idx w' = task_turn_idx w + 1 \<and> chat_done w' = chat_done w \<and> opt w' = opt w"
  using assms unfolding parley_start_def
  by (auto simp: Let_def split: sum.splits option.splits if_splits)

lemma parley_start_shape:
  assumes "parley_start w b = Inr w'" "task_turn_idx w = 0" "dialog w = []"
  shows "dialog_shape w'"
proof -
  from parley_start_dialog[OF assms(1)] obtain u1 u2 where
    "dialog w' = dialog w @ [u1, u2]" "agent_idx u1 = 0" "agent_idx u2 = 1"
    "task_turn_idx w' = task_turn_idx w + 1" by blast
  then show ?thesis using assms(2,3) by (simp add: dialog_shape_def upt_rec)
qed

lemma parley_loop_shape:
  assumes "parley_loop w h b = Inr w'" "dialog_shape w"
  shows "dialog_shape w'"
proof -
  from assms(1) have nd: "\<not> chat_done w" by (auto simp: parley_loop_def split: if_splits)
  with assms(2) have ev: "even (length (dialog w))" and
    len: "int (length (dialog w)) = task_turn_idx w + 1" and one: "1 \<le> task_turn_idx w" and
    alt: "map agent_idx (dialog w) = map (\<lambda>i. i mod 2) [0..<length (dialog w)]"
    by (simp_all add: dialog_shape_def)
  from assms(1) nd obtain r1 w1 where a0: "parley_agent 0 h w = Inr (r1, w1)"
    by (auto simp: parley_loop_def split: sum.splits)
  have ai: "\<And>u v. agent_idx (u\<lparr>problem_data := v\<rparr>) = agent_idx u" by simp
  show ?thesis
  proof (cases r1)
    case True
    with assms(1) nd a0 have "w' = w1" by (simp add: parley_loop_def)
    moreover from parley_agent_Inr(2)[OF a0 ai True]
    have "chat_done w1" "task_turn_idx w1 = task_turn_idx w"
      "map agent_idx (dialog w1) = map agent_idx (dialog w)" by simp_all
    moreover from this(3) have "length (dialog w1) = length (dialog w)"
      by (metis length_map)
    ultimately show ?thesis using len one alt by (simp add: dialog_shape_def)
  next
    case False
    from parley_agent_Inr(3)[OF a0 ai False]
    have s1: "chat_done w1 = chat_done w" "task_turn_idx w1 = task_turn_idx w + 1"
      "map agent_idx (dialog w1) = map agent_idx (dialog w) @ [0]" by auto
    from s1(3) have l1: "length (dialog w1) = Suc (length (dialog w))"
      by (metis length_map length_append_singleton)
    have alt1: "map agent_idx (dialog w1) = map (\<lambda>i. i mod 2) [0..<length (dialog w1)]"
      using s1(3) alt ev l1 by simp
    from assms(1) nd a0 False obtain r2 where a1: "parley_agent 1 b w1 = Inr (r2, w')"
      by (auto simp: parley_loop_def split: sum.splits)
    show ?thesis
    proof (cases r2)
      case True
      from parley_agent_Inr(2)[OF a1 ai True]
      have s2: "chat_done w'" "task_turn_idx w' = task_turn_idx w1"
        "map agent_idx (dialog w') = map agent_idx (dialog w1)" by simp_all
      from s2(3) have "length (dialog w') = length (dialog w1)"
        by (metis length_map)
      then show ?thesis using s2 s1(2) l1 len one alt1 by (simp add: dialog_shape_def)
    next
      case r2f: False
      from parley_agent_Inr(3)[OF a1 ai r2f]
      have s2: "chat_done w' = chat_done w1" "task_turn_idx w' = task_turn_idx w1 + 1"
        "map agent_idx (dialog w') = map agent_idx (dialog w1) @ [1]" by auto
      from s2(3) have l2: "length (dialog w') = Suc (length (dialog w1))"
        by (metis length_map length_append_singleton)
      have "map agent_idx (dialog w') = map (\<lambda>i. i mod 2) [0..<length (dialog w')]"
        using s2(3) alt1 ev l1 l2 by (simp add: even_Suc_mod2)
      then show ?thesis using s2(1,2) s1(1,2) l1 l2 len one ev nd by (simp add: dialog_shape_def)
    qed
  qed
qed

lemma parley_shape:
  assumes "parley w h b = Inr w'" "dialog_shape w"
  shows "dialog_shape w'"
proof -
  from assms(2) have "task_turn_idx w \<noteq> 0" by (simp add: dialog_shape_def)
  with assms(1) have "parley_loop w h b = Inr w'" by (simp add: parley_def)
  then show ?thesis using assms(2) by (rule parley_loop_shape)
qed

lemma run_shape:
  "run w acts = Inr w' \<Longrightarrow> dialog_shape w \<Longrightarrow> dialog_shape w'"
proof (induction w acts rule: run.induct)
  case (1 w)
  then show ?case by simp
next
  case (2 w human_act bot_act rest)
  show ?case
  proof (cases "chat_episode_done w")
    case True
    with 2(2,3) show ?thesis by simp
  next
    case False
    with 2(2) obtain w1 where p: "parley w human_act bot_act = Inr w1" and r: "run w1 rest = Inr w'"
      by (auto split: sum.splits)
    from parley_shape[OF p 2(3)] have "dialog_shape w1" .
    with 2(1)[OF False p r] show ?thesis by simp
  qed
qed

lemma run_from_init_shape:
  assumes "run (chat_init opts aid bid ctx) acts = Inr w" "acts \<noteq> []"
  shows "dialog_shape w"
proof -
  let ?w0 = "chat_init opts aid bid ctx"
  from assms(2) obtain h b rest where acts: "acts = (h, b) # rest" by (cases acts) auto
  have nd: "\<not> chat_episode_done ?w0" by (simp add: chat_episode_done_def chat_init_def)
  with assms(1) acts obtain w1 where p: "parley ?w0 h b = Inr w1" and r: "run w1 rest = Inr w"
    by (auto split: sum.splits)
  from p have "parley_start ?w0 b = Inr w1" by (simp add: parley_def chat_init_def)
  then have "dialog_shape w1" by (rule parley_start_shape) (simp_all add: chat_init_def)
  with r show ?thesis by (rule run_shape)
qed

lemma parley_keeps_utterances:
  assumes "parley w h b = Inr w'"
  shows "prefix (map (\<lambda>u. (agent_idx u, utt_text u, utt_id u, fake_start u, episode_done u)) (dialog w))
                (map (\<lambda>u. (agent_idx u, utt_text u, utt_id u, fake_start u, episode_done u)) (dialog w'))"
proof (cases "task_turn_idx w = 0")
  case True
  with assms have "parley_start w b = Inr w'" by (simp add: parley_def)
  from parley_start_dialog[OF this] show ?thesis by auto
next
  case False
  let ?f = "\<lambda>u. (agent_idx u, utt_text u, utt_id u, fake_start u, episode_done u)"
  have f: "\<And>u v. ?f (u\<lparr>problem_data := v\<rparr>) = ?f u" by simp
  from False assms have pl: "parley_loop w h b = Inr w'" by (simp add: parley_def)
  then have nd: "\<not> chat_done w" by (auto simp: parley_loop_def split: if_splits)
  from pl nd obtain r1 w1 where a0: "parley_agent 0 h w = Inr (r1, w1)"
    by (auto simp: parley_loop_def split: sum.splits)
  have p1: "prefix (map ?f (dialog w)) (map ?f (dialog w1))"
  proof (cases r1)
    case True
    from parley_agent_Inr(2)[OF a0 f True] show ?thesis by simp
  next
    case False
    from parley_agent_Inr(3)[OF a0 f False] show ?thesis by auto
  qed
  show ?thesis
  proof (cases r1)
    case True
    with pl nd a0 have "w' = w1" by (simp add: parley_loop_def)
    with p1 show ?thesis by simp
  next
    case False
    with pl nd a0 obtain r2 where a1: "parley_agent 1 b w1 = Inr (r2, w')"
      by (auto simp: parley_loop_def split: sum.splits)
    have "prefix (map ?f (dialog w1)) (map ?f (dialog w'))"
    proof (cases r2)
      case True
      from parley_agent_Inr(2)[OF a1 f True] show ?thesis by simp
    next
      case r2f: False
      from parley_agent_Inr(3)[OF a1 f r2f] show ?thesis by auto
    qed
    with p1 show ?thesis by (rule prefix_order.trans)
  qed
qed

subsection \<open>C3: the length and the order of the dialog\<close>

text \<open>
  Claim C3, as amended. After any run of \<^verbatim>\<open>parley\<close> calls from a new chat world (at least
  the opening one), in either start mode, the number of recorded utterances is the turn
  index plus one: the opening step records two utterances and advances the turn index
  by one, and afterwards every recorded utterance advances it by one. The recorded
  utterances are those of agent 0 and agent 1 in turn, starting with agent 0. A call of
  \<^verbatim>\<open>parley\<close> never removes or reorders what is recorded: the dialog before, problem data
  apart, is a prefix of the dialog after. In the \<^verbatim>\<open>bst\<close> mode the opening step records the
  two seed utterances, of agent 0 and then of agent 1 and both marked as fake start, and
  leaves the turn index at 1.
\<close>

theorem run_dialog_shape:
  "(run (chat_init opts aid bid ctx) acts = Inr w \<and> acts \<noteq> [] \<longrightarrow>
      int (length (dialog w)) = task_turn_idx w + 1 \<and>
      map agent_idx (dialog w) = map (\<lambda>i. i mod 2) [0..<length (dialog w)]) \<and>
   (parley v human_act bot_act = Inr v' \<longrightarrow>
      prefix (map (\<lambda>u. (agent_idx u, utt_text u, utt_id u, fake_start u, episode_done u)) (dialog v))
             (map (\<lambda>u. (agent_idx u, utt_text u, utt_id u, fake_start u, episode_done u)) (dialog v'))) \<and>
   (conversation_start_mode opts = ''bst'' \<and>
    parley (chat_init opts aid bid ctx) first_human_act first_bot_act = Inr v0 \<longrightarrow>
      (\<exists>u1 u2. dialog v0 = [u1, u2] \<and> agent_idx u1 = 0 \<and> agent_idx u2 = 1 \<and>
                fake_start u1 \<and> fake_start u2) \<and>
      task_turn_idx v0 = 1)"
proof (intro conjI impI)
  assume a: "run (chat_init opts aid bid ctx) acts = Inr w \<and> acts \<noteq> []"
  then have "dialog_shape w" using run_from_init_shape by blast
  then show "int (length (dialog w)) = task_turn_idx w + 1"
    and "map agent_idx (dialog w) = map (\<lambda>i. i mod 2) [0..<length (dialog w)]"
    by (simp_all add: dialog_shape_def)
next
  assume "parley v human_act bot_act = Inr v'"
  then show "prefix (map (\<lambda>u. (agent_idx u, utt_text u, utt_id u, fake_start u, episode_done u)) (dialog v))
             (map (\<lambda>u. (agent_idx u, utt_text u, utt_id u, fake_start u, episode_done u)) (dialog v'))"
    by (rule parley_keeps_utterances)
next
  assume b: "conversation_start_mode opts = ''bst'' \<and>
    parley (chat_init opts aid bid ctx) first_human_act first_bot_act = Inr v0"
  then have ps: "parley_start (chat_init opts aid bid ctx) first_bot_act = Inr v0"
    by (simp add: parley_def chat_init_def)
  have m: "conversation_start_mode (opt (chat_init opts aid bid ctx)) = ''bst''"
    using b by (simp add: chat_init_def)
  from parley_start_dialog[OF ps] m
  show "\<exists>u1 u2. dialog v0 = [u1, u2] \<and> agent_idx u1 = 0 \<and> agent_idx u2 = 1 \<and>
                fake_start u1 \<and> fake_start u2"
    by (auto simp: chat_init_def)
  from parley_start_dialog[OF ps] show "task_turn_idx v0 = 1"
    by (auto simp: chat_init_def)
qed

text \<open>
  A conversation in the \<^verbatim>\<open>bst\<close> mode: the opening step, one exchange, and the final rating
  of the human.
\<close>

theorem run_dialog_shape_witness:
  "run
     (chat_init (\<lparr>num_turns = 1, include_persona = False, conversation_start_mode =
       ''bst'', check_acceptability = True\<rparr>) ''Worker'' ''Bot'' (Some
       \<lparr>persona_1_strings = [''I like tea.''], persona_2_strings = [''I have a dog.''],
       context_dataset = Some ''convai2'', additional_context = None, person1_seed_utterance =
       ''How are you?'', person2_seed_utterance = ''Fine, thanks.''\<rparr>))
     [(\<lparr>msg_text = Some ''I like it<br>no'', msg_id = Some ''Worker'', msg_task_data =
       Some \<lparr>final_rating = None, problem_data_for_prior_message = Some
       [(''none_all_good'', True)]\<rparr>\<rparr>, \<lparr>msg_text = Some ''Hello'', msg_id =
       Some ''Bot'', msg_task_data = None\<rparr>), (\<lparr>msg_text = Some
       ''I like it<br>no'', msg_id = Some ''Worker'', msg_task_data = Some \<lparr>final_rating
       = None, problem_data_for_prior_message = Some [(''none_all_good'',
       True)]\<rparr>\<rparr>, \<lparr>msg_text = Some
       ''Hello there<br>[annotation-ui-markup]'', msg_id = None, msg_task_data = None\<rparr>),
       (\<lparr>msg_text = None, msg_id = Some ''Worker'', msg_task_data = Some
       \<lparr>final_rating = Some 5, problem_data_for_prior_message = Some [(''not_fluent'',
       True)]\<rparr>\<rparr>, \<lparr>msg_text = Some
       ''Hello there<br>[annotation-ui-markup]'', msg_id = None, msg_task_data = None\<rparr>)] =
   Inr
     (\<lparr>opt = \<lparr>num_turns = 1, include_persona = False, conversation_start_mode =
       ''bst'', check_acceptability = True\<rparr>, task_turn_idx = 3, dialog =
       [\<lparr>agent_idx = 0, utt_text = ''How are you?'', utt_id = ''Worker'', fake_start =
       True, episode_done = Some False, problem_data = None\<rparr>, \<lparr>agent_idx = 1,
       utt_text = ''Fine, thanks.'', utt_id = ''Bot'', fake_start = True, episode_done = Some
       False, problem_data = None\<rparr>, \<lparr>agent_idx = 0, utt_text = ''I like it'',
       utt_id = ''Worker'', fake_start = False, episode_done = None, problem_data = Some
       [(''none_all_good'', True)]\<rparr>, \<lparr>agent_idx = 1, utt_text = ''Hello there'',
       utt_id = ''NULL_ID'', fake_start = False, episode_done = None, problem_data = Some
       [(''not_fluent'', True)]\<rparr>], chat_done = True, chat_context_info = (Some
       \<lparr>persona_1_strings = [''I like tea.''], persona_2_strings = [''I have a dog.''],
       context_dataset = Some ''convai2'', additional_context = None, person1_seed_utterance =
       ''How are you?'', person2_seed_utterance = ''Fine, thanks.''\<rparr>), agent_id =
       ''Worker'', bot_id = ''Bot''\<rparr>) \<and>
   int (length (dialog
     (\<lparr>opt = \<lparr>num_turns = 1, include_persona = False, conversation_start_mode =
       ''bst'', check_acceptability = True\<rparr>, task_turn_idx = 3, dialog =
       [\<lparr>agent_idx = 0, utt_text = ''How are you?'', utt_id = ''Worker'', fake_start =
       True, episode_done = Some False, problem_data = None\<rparr>, \<lparr>agent_idx = 1,
       utt_text = ''Fine, thanks.'', utt_id = ''Bot'', fake_start = True, episode_done = Some
       False, problem_data = None\<rparr>, \<lparr>agent_idx = 0, utt_text = ''I like it'',
       utt_id = ''Worker'', fake_start = False, episode_done = None, problem_data = Some
       [(''none_all_good'', True)]\<rparr>, \<lparr>agent_idx = 1, utt_text = ''Hello there'',
       utt_id = ''NULL_ID'', fake_start = False, episode_done = None, problem_data = Some
       [(''not_fluent'', True)]\<rparr>], chat_done = True, chat_context_info = (Some
       \<lparr>persona_1_strings = [''I like tea.''], persona_2_strings = [''I have a dog.''],
       context_dataset = Some ''convai2'', additional_context = None, person1_seed_utterance =
       ''How are you?'', person2_seed_utterance = ''Fine, thanks.''\<rparr>), agent_id =
       ''Worker'', bot_id = ''Bot''\<rparr>))) =
   task_turn_idx
     (\<lparr>opt = \<lparr>num_turns = 1, include_persona = False, conversation_start_mode =
       ''bst'', check_acceptability = True\<rparr>, task_turn_idx = 3, dialog =
       [\<lparr>agent_idx = 0, utt_text = ''How are you?'', utt_id = ''Worker'', fake_start =
       True, episode_done = Some False, problem_data = None\<rparr>, \<lparr>agent_idx = 1,
       utt_text = ''Fine, thanks.'', utt_id = ''Bot'', fake_start = True, episode_done = Some
       False, problem_data = None\<rparr>, \<lparr>agent_idx = 0, utt_text = ''I like it'',
       utt_id = ''Worker'', fake_start = False, episode_done = None, problem_data = Some
       [(''none_all_good'', True)]\<rparr>, \<lparr>agent_idx = 1, utt_text = ''Hello there'',
       utt_id = ''NULL_ID'', fake_start = False, episode_done = None, problem_data = Some
       [(''not_fluent'', True)]\<rparr>], chat_done = True, chat_context_info = (Some
       \<lparr>persona_1_strings = [''I like tea.''], persona_2_strings = [''I have a dog.''],
       context_dataset = Some ''convai2'', additional_context = None, person1_seed_utterance =
       ''How are you?'', person2_seed_utterance = ''Fine, thanks.''\<rparr>), agent_id =
       ''Worker'', bot_id = ''Bot''\<rparr>) + 1 \<and>
   parley
     (chat_init (\<lparr>num_turns = 1, include_persona = False, conversation_start_mode =
       ''bst'', check_acceptability = True\<rparr>) ''Worker'' ''Bot'' (Some
       \<lparr>persona_1_strings = [''I like tea.''], persona_2_strings = [''I have a dog.''],
       context_dataset = Some ''convai2'', additional_context = None, person1_seed_utterance =
       ''How are you?'', person2_seed_utterance = ''Fine, thanks.''\<rparr>))
     (\<lparr>msg_text = Some ''I like it<br>no'', msg_id = Some ''Worker'', msg_task_data =
       Some \<lparr>final_rating = None, problem_data_for_prior_message = Some
       [(''none_all_good'', True)]\<rparr>\<rparr>)
     (\<lparr>msg_text = Some ''Hello'', msg_id = Some ''Bot'', msg_task_data = None\<rparr>) =
   Inr
     (\<lparr>opt = \<lparr>num_turns = 1, include_persona = False, conversation_start_mode =
       ''bst'', check_acceptability = True\<rparr>, task_turn_idx = 1, dialog =
       [\<lparr>agent_idx = 0, utt_text = ''How are you?'', utt_id = ''Worker'', fake_start =
       True, episode_done = Some False, problem_data = None\<rparr>, \<lparr>agent_idx = 1,
       utt_text = ''Fine, thanks.'', utt_id = ''Bot'', fake_start = True, episode_done = Some
       False, problem_data = None\<rparr>], chat_done = False, chat_context_info = (Some
       \<lparr>persona_1_strings = [''I like tea.''], persona_2_strings = [''I have a dog.''],
       context_dataset = Some ''convai2'', additional_context = None, person1_seed_utterance =
       ''How are you?'', person2_seed_utterance = ''Fine, thanks.''\<rparr>), agent_id =
       ''Worker'', bot_id = ''Bot''\<rparr>)"
  using run_dialog_shape
    [where opts =
     "\<lparr>num_turns = 1, include_persona = False, conversation_start_mode = ''bst'',
       check_acceptability = True\<rparr>"
     and aid = "''Worker''" and bid = "''Bot''" and ctx =
     "Some \<lparr>persona_1_strings = [''I like tea.''], persona_2_strings =
       [''I have a dog.''], context_dataset = Some ''convai2'', additional_context = None,
       person1_seed_utterance = ''How are you?'', person2_seed_utterance =
       ''Fine, thanks.''\<rparr>"
     and acts =
     "[(\<lparr>msg_text = Some ''I like it<br>no'', msg_id = Some ''Worker'', msg_task_data =
       Some \<lparr>final_rating = None, problem_data_for_prior_message = Some
       [(''none_all_good'', True)]\<rparr>\<rparr>, \<lparr>msg_text = Some ''Hello'', msg_id =
       Some ''Bot'', msg_task_data = None\<rparr>), (\<lparr>msg_text = Some
       ''I like it<br>no'', msg_id = Some ''Worker'', msg_task_data = Some \<lparr>final_rating
       = None, problem_data_for_prior_message = Some [(''none_all_good'',
       True)]\<rparr>\<rparr>, \<lparr>msg_text = Some
       ''Hello there<br>[annotation-ui-markup]'', msg_id = None, msg_task_data = None\<rparr>),
       (\<lparr>msg_text = None, msg_id = Some ''Worker'', msg_task_data = Some
       \<lparr>final_rating = Some 5, problem_data_for_prior_message = Some [(''not_fluent'',
       True)]\<rparr>\<rparr>, \<lparr>msg_text = Some
       ''Hello there<br>[annotation-ui-markup]'', msg_id = None, msg_task_data = None\<rparr>)]"
     and w =
     "\<lparr>opt = \<lparr>num_turns = 1, include_persona = False, conversation_start_mode =
       ''bst'', check_acceptability = True\<rparr>, task_turn_idx = 3, dialog =
       [\<lparr>agent_idx = 0, utt_text = ''How are you?'', utt_id = ''Worker'', fake_start =
       True, episode_done = Some False, problem_data = None\<rparr>, \<lparr>agent_idx = 1,
       utt_text = ''Fine, thanks.'', utt_id = ''Bot'', fake_start = True, episode_done = Some
       False, problem_data = None\<rparr>, \<lparr>agent_idx = 0, utt_text = ''I like it'',
       utt_id = ''Worker'', fake_start = False, episode_done = None, problem_data = Some
       [(''none_all_good'', True)]\<rparr>, \<lparr>agent_idx = 1, utt_text = ''Hello there'',
       utt_id = ''NULL_ID'', fake_start = False, episode_done = None, problem_data = Some
       [(''not_fluent'', True)]\<rparr>], chat_done = True, chat_context_info = (Some
       \<lparr>persona_1_strings = [''I like tea.''], persona_2_strings = [''I have a dog.''],
       context_dataset = Some ''convai2'', additional_context = None, person1_seed_utterance =
       ''How are you?'', person2_seed_utterance = ''Fine, thanks.''\<rparr>), agent_id =
       ''Worker'', bot_id = ''Bot''\<rparr>"
     and v =
     "chat_init (\<lparr>num_turns = 1, include_persona = False, conversation_start_mode =
       ''bst'', check_acceptability = True\<rparr>) ''Worker'' ''Bot'' (Some
       \<lparr>persona_1_strings = [''I like tea.''], persona_2_strings = [''I have a dog.''],
       context_dataset = Some ''convai2'', additional_context = None, person1_seed_utterance =
       ''How are you?'', person2_seed_utterance = ''Fine, thanks.''\<rparr>)"
     and human_act =
     "\<lparr>msg_text = Some ''I like it<br>no'', msg_id = Some ''Worker'', msg_task_data =
       Some \<lparr>final_rating = None, problem_data_for_prior_message = Some
       [(''none_all_good'', True)]\<rparr>\<rparr>"
     and bot_act =
     "\<lparr>msg_text = Some ''Hello'', msg_id = Some ''Bot'', msg_task_data = None\<rparr>"
     and v' =
     "\<lparr>opt = \<lparr>num_turns = 1, include_persona = False, conversation_start_mode =
       ''bst'', check_acceptability = True\<rparr>, task_turn_idx = 1, dialog =
       [\<lparr>agent_idx = 0, utt_text = ''How are you?'', utt_id = ''Worker'', fake_start =
       True, episode_done = Some False, problem_data = None\<rparr>, \<lparr>agent_idx = 1,
       utt_text = ''Fine, thanks.'', utt_id = ''Bot'', fake_start = True, episode_done = Some
       False, problem_data = None\<rparr>], chat_done = False, chat_context_info = (Some
       \<lparr>persona_1_strings = [''I like tea.''], persona_2_strings = [''I have a dog.''],
       context_dataset = Some ''convai2'', additional_context = None, person1_seed_utterance =
       ''How are you?'', person2_seed_utterance = ''Fine, thanks.''\<rparr>), agent_id =
       ''Worker'', bot_id = ''Bot''\<rparr>"
     and first_human_act =
     "\<lparr>msg_text = Some ''I like it<br>no'', msg_id = Some ''Worker'', msg_task_data =
       Some \<lparr>final_rating = None, problem_data_for_prior_message = Some
       [(''none_all_good'', True)]\<rparr>\<rparr>"
     and first_bot_act =
     "\<lparr>msg_text = Some ''Hello'', msg_id = Some ''Bot'', msg_task_data = None\<rparr>"
     and ?v0.0 =
     "\<lparr>opt = \<lparr>num_turns = 1, include_persona = False, conversation_start_mode =
       ''bst'', check_acceptability = True\<rparr>, task_turn_idx = 1, dialog =
       [\<lparr>agent_idx = 0, utt_text = ''How are you?'', utt_id = ''Worker'', fake_start =
       True, episode_done = Some False, problem_data = None\<rparr>, \<lparr>agent_idx = 1,
       utt_text = ''Fine, thanks.'', utt_id = ''Bot'', fake_start = True, episode_done = Some
       False, problem_data = None\<rparr>], chat_done = False, chat_context_info = (Some
       \<lparr>persona_1_strings = [''I like tea.''], persona_2_strings = [''I have a dog.''],
       context_dataset = Some ''convai2'', additional_context = None, person1_seed_utterance =
       ''How are you?'', person2_seed_utterance = ''Fine, thanks.''\<rparr>), agent_id =
       ''Worker'', bot_id = ''Bot''\<rparr>"]
  by (simp add: chat_init_def chat_episode_done_def parley_def parley_loop_def parley_start_def
      parley_agent_def get_final_rating_def get_problem_data_def py_split_def py_nth_def
      py_index_def add_problem_data_to_utterance_def)

text \<open>
  The length the claim states fails in both modes. In the \<^verbatim>\<open>bst\<close> mode, a conversation
  that the human ends right after the opening step has 2 utterances and turn index 1,
  not 2 * 1 + 2. In the \<^verbatim>\<open>hi\<close> mode, a conversation of the opening step, one exchange and
  the final rating has 4 utterances and turn index 3, not 2 * 3.
\<close>

theorem run_dialog_length_counterexample:
  "run
     (chat_init (\<lparr>num_turns = 1, include_persona = False, conversation_start_mode =
       ''bst'', check_acceptability = True\<rparr>) ''Worker'' ''Bot'' (Some
       \<lparr>persona_1_strings = [''I like tea.''], persona_2_strings = [''I have a dog.''],
       context_dataset = Some ''convai2'', additional_context = None, person1_seed_utterance =
       ''How are you?'', person2_seed_utterance = ''Fine, thanks.''\<rparr>))
     [(\<lparr>msg_text = Some ''I like it<br>no'', msg_id = Some ''Worker'', msg_task_data =
       Some \<lparr>final_rating = None, problem_data_for_prior_message = Some
       [(''none_all_good'', True)]\<rparr>\<rparr>, \<lparr>msg_text = Some ''Hello'', msg_id =
       Some ''Bot'', msg_task_data = None\<rparr>), (\<lparr>msg_text = None, msg_id = Some
       ''Worker'', msg_task_data = Some \<lparr>final_rating = Some 5,
       problem_data_for_prior_message = Some [(''not_fluent'', True)]\<rparr>\<rparr>,
       \<lparr>msg_text = Some ''Hello there<br>[annotation-ui-markup]'', msg_id = None,
       msg_task_data = None\<rparr>)] =
   Inr
     (\<lparr>opt = \<lparr>num_turns = 1, include_persona = False, conversation_start_mode =
       ''bst'', check_acceptability = True\<rparr>, task_turn_idx = 1, dialog =
       [\<lparr>agent_idx = 0, utt_text = ''How are you?'', utt_id = ''Worker'', fake_start =
       True, episode_done = Some False, problem_data = None\<rparr>, \<lparr>agent_idx = 1,
       utt_text = ''Fine, thanks.'', utt_id = ''Bot'', fake_start = True, episode_done = Some
       False, problem_data = None\<rparr>], chat_done = True, chat_context_info = (Some
       \<lparr>persona_1_strings = [''I like tea.''], persona_2_strings = [''I have a dog.''],
       context_dataset = Some ''convai2'', additional_context = None, person1_seed_utterance =
       ''How are you?'', person2_seed_utterance = ''Fine, thanks.''\<rparr>), agent_id =
       ''Worker'', bot_id = ''Bot''\<rparr>) \<and>
   int (length (dialog
     (\<lparr>opt = \<lparr>num_turns = 1, include_persona = False, conversation_start_mode =
       ''bst'', check_acceptability = True\<rparr>, task_turn_idx = 1, dialog =
       [\<lparr>agent_idx = 0, utt_text = ''How are you?'', utt_id = ''Worker'', fake_start =
       True, episode_done = Some False, problem_data = None\<rparr>, \<lparr>agent_idx = 1,
       utt_text = ''Fine, thanks.'', utt_id = ''Bot'', fake_start = True, episode_done = Some
       False, problem_data = None\<rparr>], chat_done = True, chat_context_info = (Some
       \<lparr>persona_1_strings = [''I like tea.''], persona_2_strings = [''I have a dog.''],
       context_dataset = Some ''convai2'', additional_context = None, person1_seed_utterance =
       ''How are you?'', person2_seed_utterance = ''Fine, thanks.''\<rparr>), agent_id =
       ''Worker'', bot_id = ''Bot''\<rparr>))) \<noteq>
   2 * task_turn_idx
     (\<lparr>opt = \<lparr>num_turns = 1, include_persona = False, conversation_start_mode =
       ''bst'', check_acceptability = True\<rparr>, task_turn_idx = 1, dialog =
       [\<lparr>agent_idx = 0, utt_text = ''How are you?'', utt_id = ''Worker'', fake_start =
       True, episode_done = Some False, problem_data = None\<rparr>, \<lparr>agent_idx = 1,
       utt_text = ''Fine, thanks.'', utt_id = ''Bot'', fake_start = True, episode_done = Some
       False, problem_data = None\<rparr>], chat_done = True, chat_context_info = (Some
       \<lparr>persona_1_strings = [''I like tea.''], persona_2_strings = [''I have a dog.''],
       context_dataset = Some ''convai2'', additional_context = None, person1_seed_utterance =
       ''How are you?'', person2_seed_utterance = ''Fine, thanks.''\<rparr>), agent_id =
       ''Worker'', bot_id = ''Bot''\<rparr>) + 2 \<and>
   run
     (chat_init (\<lparr>num_turns = 1, include_persona = False, conversation_start_mode =
       ''hi'', check_acceptability = True\<rparr>) ''Worker'' ''Bot'' None)
     [(\<lparr>msg_text = Some ''I like it<br>no'', msg_id = Some ''Worker'', msg_task_data =
       Some \<lparr>final_rating = None, problem_data_for_prior_message = Some
       [(''none_all_good'', True)]\<rparr>\<rparr>, \<lparr>msg_text = Some ''Hello'', msg_id =
       Some ''Bot'', msg_task_data = None\<rparr>), (\<lparr>msg_text = Some
       ''I like it<br>no'', msg_id = Some ''Worker'', msg_task_data = Some \<lparr>final_rating
       = None, problem_data_for_prior_message = Some [(''none_all_good'',
       True)]\<rparr>\<rparr>, \<lparr>msg_text = Some
       ''Hello there<br>[annotation-ui-markup]'', msg_id = None, msg_task_data = None\<rparr>),
       (\<lparr>msg_text = None, msg_id = Some ''Worker'', msg_task_data = Some
       \<lparr>final_rating = Some 5, problem_data_for_prior_message = Some [(''not_fluent'',
       True)]\<rparr>\<rparr>, \<lparr>msg_text = Some
       ''Hello there<br>[annotation-ui-markup]'', msg_id = None, msg_task_data = None\<rparr>)] =
   Inr
     (\<lparr>opt = \<lparr>num_turns = 1, include_persona = False, conversation_start_mode =
       ''hi'', check_acceptability = True\<rparr>, task_turn_idx = 3, dialog =
       [\<lparr>agent_idx = 0, utt_text = ''Hi!'', utt_id = ''Worker'', fake_start = True,
       episode_done = Some False, problem_data = None\<rparr>, \<lparr>agent_idx = 1, utt_text =
       ''Hello'', utt_id = ''Bot'', fake_start = False, episode_done = None, problem_data =
       None\<rparr>, \<lparr>agent_idx = 0, utt_text = ''I like it'', utt_id = ''Worker'',
       fake_start = False, episode_done = None, problem_data = Some [(''none_all_good'',
       True)]\<rparr>, \<lparr>agent_idx = 1, utt_text = ''Hello there'', utt_id = ''NULL_ID'',
       fake_start = False, episode_done = None, problem_data = Some [(''not_fluent'',
       True)]\<rparr>], chat_done = True, chat_context_info = None, agent_id = ''Worker'',
       bot_id = ''Bot''\<rparr>) \<and>
   int (length (dialog
     (\<lparr>opt = \<lparr>num_turns = 1, include_persona = False, conversation_start_mode =
       ''hi'', check_acceptability = True\<rparr>, task_turn_idx = 3, dialog =
       [\<lparr>agent_idx = 0, utt_text = ''Hi!'', utt_id = ''Worker'', fake_start = True,
       episode_done = Some False, problem_data = None\<rparr>, \<lparr>agent_idx = 1, utt_text =
       ''Hello'', utt_id = ''Bot'', fake_start = False, episode_done = None, problem_data =
       None\<rparr>, \<lparr>agent_idx = 0, utt_text = ''I like it'', utt_id = ''Worker'',
       fake_start = False, episode_done = None, problem_data = Some [(''none_all_good'',
       True)]\<rparr>, \<lparr>agent_idx = 1, utt_text = ''Hello there'', utt_id = ''NULL_ID'',
       fake_start = False, episode_done = None, problem_data = Some [(''not_fluent'',
       True)]\<rparr>], chat_done = True, chat_context_info = None, agent_id = ''Worker'',
       bot_id = ''Bot''\<rparr>))) \<noteq>
   2 * task_turn_idx
     (\<lparr>opt = \<lparr>num_turns = 1, include_persona = False, conversation_start_mode =
       ''hi'', check_acceptability = True\<rparr>, task_turn_idx = 3, dialog =
       [\<lparr>agent_idx = 0, utt_text = ''Hi!'', utt_id = ''Worker'', fake_start = True,
       episode_done = Some False, problem_data = None\<rparr>, \<lparr>agent_idx = 1, utt_text =
       ''Hello'', utt_id = ''Bot'', fake_start = False, episode_done = None, problem_data =
       None\<rparr>, \<lparr>agent_idx = 0, utt_text = ''I like it'', utt_id = ''Worker'',
       fake_start = False, episode_done = None, problem_data = Some [(''none_all_good'',
       True)]\<rparr>, \<lparr>agent_idx = 1, utt_text = ''Hello there'', utt_id = ''NULL_ID'',
       fake_start = False, episode_done = None, problem_data = Some [(''not_fluent'',
       True)]\<rparr>], chat_done = True, chat_context_info = None, agent_id = ''Worker'',
       bot_id = ''Bot''\<rparr>)"
  by (simp add: chat_init_def chat_episode_done_def parley_def parley_loop_def parley_start_def
      parley_agent_def get_final_rating_def get_problem_data_def py_split_def py_nth_def
      py_index_def add_problem_data_to_utterance_def)

end
